theory Spec2Isabelle
  imports Main "HOL-Library.Multiset"
begin

section \<open>Data of the filter plugin bridge\<close>

text \<open>
  The bridge of \<^verbatim>\<open>python_plugin_interface.cpp\<close> talks to two collaborators: the
  embedded Python runtime (every \<^verbatim>\<open>Py...\<close> call) and the host's logger. A call of
  the bridge is modelled by explicit state passing over the record \<open>bridge\<close>: the two
  globals of the file (\<open>pModule\<close>, \<open>sPluginName\<close>), whether the runtime of the process
  has been initialised, what the runtime keeps for the calling thread (whether it holds
  the GIL, the pending error indicator, the references native code owns), and the
  chronological trace of every interaction.
\<close>

text \<open>A native pointer; \<open>0\<close> is \<^verbatim>\<open>NULL\<close>.\<close>

type_synonym ptr = nat

text \<open>Script-side objects. A \<^verbatim>\<open>PyObject*\<close> is a \<open>pyobj option\<close>, \<open>None\<close> being \<^verbatim>\<open>NULL\<close>.\<close>

datatype pyobj =
    PyNone
  | PyBool bool
  | PyLong int
  | PyUnicode string
  | PyList "pyobj list"
  | PyDict "(pyobj \<times> pyobj) list"
  | PyCapsule ptr
  | PyObj nat

text \<open>
  Modelled from the spec: the record type \<^verbatim>\<open>Reading\<close> (\<^verbatim>\<open>reading.h\<close>) is not among the
  sources. The spec describes a record as an immutable structured value with fields
  (measured values, timestamp, source identifier); it is modelled as the list of its
  fields, each a field identity with its value.
\<close>

datatype fvalue = FInt int | FStr string

type_synonym Reading = "(string \<times> fvalue) list"

text \<open>
  The \<^verbatim>\<open>ReadingSet\<close> behind the pointer \<^verbatim>\<open>data\<close>: its address and the readings
  \<^verbatim>\<open>getAllReadings()\<close> returns.
\<close>

record ReadingSet =
  rs_addr :: ptr
  rs_readings :: "Reading list"

text \<open>The configuration category, seen through \<^verbatim>\<open>config->itemsToJSON()\<close> only.\<close>

record ConfigCategory =
  itemsToJSON :: string

datatype severity = Debug | Info | Warn | Error | Fatal

text \<open>Arguments of a printf-style log call, and of \<^verbatim>\<open>PyObject_CallFunction\<close>
  (format \<^verbatim>\<open>s\<close>: a C string, format \<^verbatim>\<open>O\<close>: an object pointer).\<close>

datatype logarg = LStr string | LPtr "pyobj option" | LInt int

datatype arg = ArgS string | ArgO "pyobj option"

datatype event =
    Log severity string "logarg list"
  | Ev_GIL_Ensure
  | Ev_GIL_Release
  | Ev_GetAttrString pyobj string
  | Ev_Callable_Check "pyobj option"
  | Ev_Err_Occurred
  | Ev_logErrorMessage
  | Ev_Capsule_New ptr
  | Ev_CallFunction "pyobj option" "arg list"
  | Ev_DECREF pyobj
  | Ev_getAllReadings ptr
  | Ev_createReadingsList "Reading list"
  | Ev_delete_ReadingSet ptr
  | Ev_DecodeLocale string
  | Ev_SetProgramName string
  | Ev_RawFree string
  | Ev_Initialize
  | Ev_InitThreads
  | Ev_SaveThread
  | Ev_Sys_GetObject string
  | Ev_Unicode_FromString string
  | Ev_List_Append string
  | Ev_Sys_SetArgv "string list"
  | Ev_ImportModule string

text \<open>
  What the runtime answers during one call: attribute lookup on a module, the
  callable check, what invoking a callable on built arguments returns (\<open>None\<close>: the
  script raised), and module import.
\<close>

record runtime =
  rt_getattr :: "pyobj \<Rightarrow> string \<Rightarrow> pyobj option"
  rt_callable :: "pyobj \<Rightarrow> bool"
  rt_call :: "pyobj \<Rightarrow> arg list \<Rightarrow> pyobj option"
  rt_import :: "string \<Rightarrow> pyobj option"

record bridge =
  pModule :: "pyobj option"
  sPluginName :: string
  py_initialized :: bool
  gil :: bool
  err :: bool
  refs :: "pyobj multiset"
  program_name :: string
  sys_path :: "string list"
  sys_argv :: "string list"
  trace :: "event list"

text \<open>The dispatcher functions \<^verbatim>\<open>PluginInterfaceResolveSymbol\<close> hands out.\<close>

datatype dispatcher =
    Fn_plugin_info
  | Fn_filter_plugin_init
  | Fn_plugin_shutdown
  | Fn_plugin_reconfigure
  | Fn_filter_plugin_ingest

text \<open>
  The ways a call of the bridge ends without returning. Constructing a \<^verbatim>\<open>std::string\<close>
  from a null \<^verbatim>\<open>char*\<close> is undefined behaviour (libstdc++ throws \<^verbatim>\<open>std::logic_error\<close>,
  which nothing in the bridge catches). \<^verbatim>\<open>PyEval_SaveThread\<close> called by a thread that has
  no current thread state, that is, does not hold the GIL, ends the process
  (\<^verbatim>\<open>Py_FatalError\<close>).
\<close>

datatype fault = Null_String_Construction | SaveThread_Without_GIL

section \<open>The calls the bridge makes\<close>

definition emit :: "event \<Rightarrow> bridge \<Rightarrow> bridge" where
  "emit e s = s\<lparr>trace := trace s @ [e]\<rparr>"

definition logger :: "severity \<Rightarrow> string \<Rightarrow> logarg list \<Rightarrow> bridge \<Rightarrow> bridge" where
  "logger sev fmt args s = emit (Log sev fmt args) s"

text \<open>\<^verbatim>\<open>PyGILState_Ensure\<close> returns whether the thread held the GIL before;
  \<^verbatim>\<open>PyGILState_Release\<close> puts that state back.\<close>

definition PyGILState_Ensure :: "bridge \<Rightarrow> bool \<times> bridge" where
  "PyGILState_Ensure s = (gil s, emit Ev_GIL_Ensure (s\<lparr>gil := True\<rparr>))"

definition PyGILState_Release :: "bool \<Rightarrow> bridge \<Rightarrow> bridge" where
  "PyGILState_Release state s = emit Ev_GIL_Release (s\<lparr>gil := state\<rparr>)"

text \<open>A new reference on success; \<^verbatim>\<open>NULL\<close> with an exception set on failure.\<close>

definition new_ref :: "pyobj option \<Rightarrow> bridge \<Rightarrow> bridge" where
  "new_ref r s = (case r of None \<Rightarrow> s\<lparr>err := True\<rparr> | Some ob \<Rightarrow> s\<lparr>refs := add_mset ob (refs s)\<rparr>)"

definition PyObject_GetAttrString :: "runtime \<Rightarrow> pyobj \<Rightarrow> string \<Rightarrow> bridge \<Rightarrow> pyobj option \<times> bridge" where
  "PyObject_GetAttrString rt ob name s =
     (let r = rt_getattr rt ob name in (r, emit (Ev_GetAttrString ob name) (new_ref r s)))"

text \<open>\<^verbatim>\<open>PyCallable_Check(NULL)\<close> is 0.\<close>

definition PyCallable_Check :: "runtime \<Rightarrow> pyobj option \<Rightarrow> bridge \<Rightarrow> bool \<times> bridge" where
  "PyCallable_Check rt ob s =
     ((case ob of None \<Rightarrow> False | Some f \<Rightarrow> rt_callable rt f), emit (Ev_Callable_Check ob) s)"

definition PyErr_Occurred :: "bridge \<Rightarrow> bool \<times> bridge" where
  "PyErr_Occurred s = (err s, emit Ev_Err_Occurred s)"

text \<open>
  Modelled from the spec: \<^verbatim>\<open>logErrorMessage\<close> is declared \<^verbatim>\<open>extern\<close> and its body is
  not among the sources. The spec has the pending error state of the runtime captured,
  logged and drained at the point of detection; the call is one event that leaves no
  error pending.
\<close>

definition logErrorMessage :: "bridge \<Rightarrow> bridge" where
  "logErrorMessage s = emit Ev_logErrorMessage (s\<lparr>err := False\<rparr>)"

text \<open>\<^verbatim>\<open>PyCapsule_New\<close> refuses a null pointer (\<^verbatim>\<open>NULL\<close>, exception set).\<close>

definition capsule :: "ptr \<Rightarrow> pyobj option" where
  "capsule p = (if p = 0 then None else Some (PyCapsule p))"

definition PyCapsule_New :: "ptr \<Rightarrow> bridge \<Rightarrow> pyobj option \<times> bridge" where
  "PyCapsule_New p s = (let r = capsule p in (r, emit (Ev_Capsule_New p) (new_ref r s)))"

text \<open>
  \<^verbatim>\<open>PyObject_CallFunction\<close>: a null callable, or a null pointer for an \<^verbatim>\<open>O\<close> argument,
  fails before the callable runs; otherwise the result is what the callable returns.
\<close>

definition invoke :: "runtime \<Rightarrow> pyobj option \<Rightarrow> arg list \<Rightarrow> pyobj option" where
  "invoke rt callable args =
     (case callable of
        None \<Rightarrow> None
      | Some f \<Rightarrow> if ArgO None \<in> set args then None else rt_call rt f args)"

definition PyObject_CallFunction :: "runtime \<Rightarrow> pyobj option \<Rightarrow> arg list \<Rightarrow> bridge \<Rightarrow> pyobj option \<times> bridge" where
  "PyObject_CallFunction rt callable args s =
     (let r = invoke rt callable args in (r, emit (Ev_CallFunction callable args) (new_ref r s)))"

text \<open>\<^verbatim>\<open>Py_CLEAR(v)\<close>: nothing for \<^verbatim>\<open>NULL\<close>, else one reference of the object is given
  up (and the variable, never read again by the callers below, is nulled).\<close>

definition Py_CLEAR :: "pyobj option \<Rightarrow> bridge \<Rightarrow> bridge" where
  "Py_CLEAR v s = (case v of None \<Rightarrow> s | Some ob \<Rightarrow> emit (Ev_DECREF ob) (s\<lparr>refs := refs s - {#ob#}\<rparr>))"

definition getAllReadings :: "ReadingSet \<Rightarrow> bridge \<Rightarrow> Reading list \<times> bridge" where
  "getAllReadings data s = (rs_readings data, emit (Ev_getAllReadings (rs_addr data)) s)"

definition delete_ReadingSet :: "ReadingSet \<Rightarrow> bridge \<Rightarrow> bridge" where
  "delete_ReadingSet data s = emit (Ev_delete_ReadingSet (rs_addr data)) s"

subsection \<open>The record marshaller\<close>

definition to_py :: "fvalue \<Rightarrow> pyobj" where
  "to_py v = (case v of FInt i \<Rightarrow> PyLong i | FStr t \<Rightarrow> PyUnicode t)"

definition reading_to_dict :: "Reading \<Rightarrow> pyobj" where
  "reading_to_dict r = PyDict (map (\<lambda>(k, v). (PyUnicode k, to_py v)) r)"

text \<open>
  Modelled from the spec: \<^verbatim>\<open>createReadingsList\<close> is declared \<^verbatim>\<open>extern\<close> and its body
  is not among the sources. The spec's \<^verbatim>\<open>toScriptRepresentation\<close> produces one
  script-side mapping per record, preserving field identity and value, in the order of
  the input sequence; an empty input gives an empty, non-null script sequence.
\<close>

definition toScriptRepresentation :: "Reading list \<Rightarrow> pyobj option" where
  "toScriptRepresentation readings = Some (PyList (map reading_to_dict readings))"

definition createReadingsList :: "Reading list \<Rightarrow> bridge \<Rightarrow> pyobj option \<times> bridge" where
  "createReadingsList readings s =
     (let r = toScriptRepresentation readings in (r, emit (Ev_createReadingsList readings) (new_ref r s)))"

text \<open>Reading a script-side mapping and a script-side list back.\<close>

definition py_dict_get :: "pyobj \<Rightarrow> pyobj \<Rightarrow> pyobj option" where
  "py_dict_get d k = (case d of PyDict kvs \<Rightarrow> map_of kvs k | _ \<Rightarrow> None)"

definition py_list_items :: "pyobj option \<Rightarrow> pyobj list option" where
  "py_list_items ob = (case ob of Some (PyList xs) \<Rightarrow> Some xs | _ \<Rightarrow> None)"

section \<open>The entry points\<close>

subsection \<open>\<^verbatim>\<open>filter_plugin_ingest_fn\<close> (lines 53 to 121)\<close>

definition filter_plugin_ingest_fn :: "runtime \<Rightarrow> pyobj option \<Rightarrow> ReadingSet \<Rightarrow> bridge \<Rightarrow> bridge" where
  "filter_plugin_ingest_fn rt handle data s0 =
     (case pModule s0 of
        None \<Rightarrow>
          logger Fatal (''plugin_handle: plugin_ingest(): pModule is NULL for plugin '%s'' @ [CHR 0x27])
            [LStr (sPluginName s0)] s0
      | Some m \<Rightarrow>
          let (state, s) = PyGILState_Ensure s0;
              (pFunc, s) = PyObject_GetAttrString rt m ''plugin_ingest'' s;
              s = (if pFunc = None
                   then logger Fatal
                          (''Cannot find 'plugin_ingest' method in loaded python module '%s'' @ [CHR 0x27])
                          [LStr (sPluginName s)] s
                   else s);
              (callable, s) = (if pFunc = None then (False, s) else PyCallable_Check rt pFunc s)
          in if pFunc = None \<or> \<not> callable then
               let (pending, s) = PyErr_Occurred s;
                   s = (if pending then logErrorMessage s else s);
                   s = logger Fatal
                         (''Cannot call method plugin_ingestin loaded python module '%s'' @ [CHR 0x27])
                         [LStr (sPluginName s)] s;
                   s = Py_CLEAR pFunc s
               in PyGILState_Release state s
             else
               let (readings, s) = getAllReadings data s;
                   (readingsList, s) = createReadingsList readings s;
                   (pReturn, s) = PyObject_CallFunction rt pFunc [ArgO handle, ArgO readingsList] s;
                   s = Py_CLEAR pFunc s;
                   s = delete_ReadingSet data s;
                   s = (if pReturn = None then
                          let s = Py_CLEAR readingsList s;
                              s = logger Error
                                    (''Called python script method plugin_ingest : error while getting result object, plugin '%s'' @ [CHR 0x27])
                                    [LStr (sPluginName s)] s
                          in logErrorMessage s
                        else
                          logger Debug
                            (''plugin_handle: plugin_ingest: got result object '%p', plugin '%s'' @ [CHR 0x27])
                            [LPtr pReturn, LStr (sPluginName s)] s);
                   s = Py_CLEAR pReturn s
               in PyGILState_Release state s)"

subsection \<open>\<^verbatim>\<open>filter_plugin_init_fn\<close> (lines 139 to 211)\<close>

definition filter_plugin_init_fn :: "runtime \<Rightarrow> ConfigCategory \<Rightarrow> ptr \<Rightarrow> ptr \<Rightarrow> bridge \<Rightarrow> pyobj option \<times> bridge" where
  "filter_plugin_init_fn rt config outHandle output s0 =
     (case pModule s0 of
        None \<Rightarrow>
          (None,
           logger Fatal (''plugin_handle: plugin_init(): pModule is NULL for plugin '%s'' @ [CHR 0x27])
             [LStr (sPluginName s0)] s0)
      | Some m \<Rightarrow>
          let (state, s) = PyGILState_Ensure s0;
              (pFunc, s) = PyObject_GetAttrString rt m ''plugin_init'' s;
              s = (if pFunc = None
                   then logger Fatal
                          (''Cannot find 'plugin_init' method in loaded python module '%s'' @ [CHR 0x27])
                          [LStr (sPluginName s)] s
                   else s);
              (callable, s) = (if pFunc = None then (False, s) else PyCallable_Check rt pFunc s)
          in if pFunc = None \<or> \<not> callable then
               let (pending, s) = PyErr_Occurred s;
                   s = (if pending then logErrorMessage s else s);
                   s = logger Fatal
                         (''Cannot call method plugin_init in loaded python module '%s'' @ [CHR 0x27])
                         [LStr (sPluginName s)] s;
                   s = Py_CLEAR pFunc s;
                   s = PyGILState_Release state s
               in (None, s)
             else
               let (ingest_fn, s) = PyCapsule_New output s;
                   (ingest_ref, s) = PyCapsule_New outHandle s;
                   (pReturn, s) = PyObject_CallFunction rt pFunc
                                    [ArgS (itemsToJSON config), ArgO ingest_ref, ArgO ingest_fn] s;
                   s = Py_CLEAR pFunc s;
                   s = Py_CLEAR ingest_ref s;
                   s = Py_CLEAR ingest_fn s;
                   s = (if pReturn = None then
                          let s = logger Error
                                    (''Called python script method plugin_init : error while getting result object, plugin '%s'' @ [CHR 0x27])
                                    [LStr (sPluginName s)] s
                          in logErrorMessage s
                        else
                          logger Debug
                            (''plugin_handle: plugin_register_init(): got result object '%p', plugin '%s'' @ [CHR 0x27])
                            [LPtr pReturn, LStr (sPluginName s)] s);
                   s = PyGILState_Release state s
               in (pReturn, s))"

subsection \<open>\<^verbatim>\<open>PluginInterfaceInit\<close> (lines 222 to 300)\<close>

definition SHIM_SCRIPT_REL_PATH :: string where
  "SHIM_SCRIPT_REL_PATH = ''/python/foglamp/plugins/common/shim/''"

definition SHIM_SCRIPT_NAME :: string where
  "SHIM_SCRIPT_NAME = ''filter_shim''"

text \<open>\<^verbatim>\<open>std::string::find_last_of\<close> for one character: the last index holding it,
  \<open>None\<close> for \<^verbatim>\<open>npos\<close>.\<close>

primrec last_index :: "char \<Rightarrow> string \<Rightarrow> nat \<Rightarrow> nat option \<Rightarrow> nat option" where
  "last_index c [] i acc = acc"
| "last_index c (x # xs) i acc = last_index c xs (Suc i) (if x = c then Some i else acc)"

definition find_last_of :: "string \<Rightarrow> char \<Rightarrow> nat option" where
  "find_last_of str c = last_index c str 0 None"

text \<open>\<^verbatim>\<open>path.substr(found + 1)\<close> and \<^verbatim>\<open>path.substr(0, found)\<close>; with \<^verbatim>\<open>npos\<close> the
  first index wraps to 0 and the second count covers the whole string.\<close>

definition substr_after :: "string \<Rightarrow> nat option \<Rightarrow> string" where
  "substr_after path found = (case found of None \<Rightarrow> path | Some i \<Rightarrow> drop (Suc i) path)"

definition substr_before :: "string \<Rightarrow> nat option \<Rightarrow> string" where
  "substr_before path found = (case found of None \<Rightarrow> path | Some i \<Rightarrow> take i path)"

text \<open>\<^verbatim>\<open>Py_Initialize\<close> brings the runtime up and leaves the calling thread holding the
  GIL; on a runtime that is already initialised it does nothing.\<close>

definition Py_Initialize :: "bridge \<Rightarrow> bridge" where
  "Py_Initialize s =
     emit Ev_Initialize (if py_initialized s then s else s\<lparr>py_initialized := True, gil := True\<rparr>)"

text \<open>\<^verbatim>\<open>PyEval_SaveThread\<close> releases the GIL the calling thread holds; a thread that does
  not hold it has no thread state to save, and the process is ended.\<close>

definition PyEval_SaveThread :: "bridge \<Rightarrow> fault + bridge" where
  "PyEval_SaveThread s =
     (if gil s then Inr (emit Ev_SaveThread (s\<lparr>gil := False\<rparr>)) else Inl SaveThread_Without_GIL)"

text \<open>\<^verbatim>\<open>PyList_Append(sysPath, PyUnicode_FromString(dir))\<close>: the new string object is
  appended; the list takes a reference of its own, the caller's is never given up.\<close>

definition sys_path_append :: "string \<Rightarrow> bridge \<Rightarrow> bridge" where
  "sys_path_append dir s =
     (let s = emit (Ev_Unicode_FromString dir) (new_ref (Some (PyUnicode dir)) s)
      in emit (Ev_List_Append dir) (s\<lparr>sys_path := sys_path s @ [dir]\<rparr>))"

definition PyImport_ImportModule :: "runtime \<Rightarrow> string \<Rightarrow> bridge \<Rightarrow> pyobj option \<times> bridge" where
  "PyImport_ImportModule rt name s =
     (let r = rt_import rt name in (r, emit (Ev_ImportModule name) (new_ref r s)))"

definition PluginInterfaceInit ::
    "(string \<Rightarrow> string option) \<Rightarrow> runtime \<Rightarrow> string \<Rightarrow> string \<Rightarrow> bridge \<Rightarrow> fault + (pyobj option \<times> bridge)" where
  "PluginInterfaceInit getenv rt pluginName pluginPathName s0 =
     (let s = s0\<lparr>sPluginName := pluginName\<rparr> in
      case getenv ''FOGLAMP_ROOT'' of
        None \<Rightarrow> Inl Null_String_Construction
      | Some foglampRootDir \<Rightarrow>
          let path = foglampRootDir @ SHIM_SCRIPT_REL_PATH;
              name = SHIM_SCRIPT_NAME;
              found = find_last_of path (CHR ''/'');
              pythonScript = substr_after path found;
              shimLayerPath = substr_before path found;
              s = emit (Ev_DecodeLocale name) s;
              s = emit (Ev_SetProgramName name) (s\<lparr>program_name := name\<rparr>);
              s = emit (Ev_RawFree name) s;
              foglampPythonDir = foglampRootDir @ ''/python'';
              s = Py_Initialize s;
              s = emit Ev_InitThreads s
          in
          case PyEval_SaveThread s of
            Inl fault \<Rightarrow> Inl fault
          | Inr s \<Rightarrow>
          let (state, s) = PyGILState_Ensure s;
              s = logger Debug
                    (''SouthPlugin PythonInterface %s:%d: shimLayerPath=%s, foglampPythonDir=%s, plugin '%s'' @ [CHR 0x27])
                    [LStr ''PluginInterfaceInit'', LInt 252, LStr shimLayerPath, LStr foglampPythonDir, LStr (sPluginName s)] s;
              s = emit (Ev_Sys_GetObject ''path'') s;
              s = sys_path_append shimLayerPath s;
              s = sys_path_append foglampPythonDir s;
              s = emit (Ev_DecodeLocale '''') s;
              s = emit (Ev_DecodeLocale pluginName) s;
              s = emit (Ev_Sys_SetArgv ['''', pluginName]) (s\<lparr>sys_argv := ['''', pluginName]\<rparr>);
              (imported, s) = PyImport_ImportModule rt name s;
              s = s\<lparr>pModule := imported\<rparr>;
              s = (if pModule s = None then
                     let (pending, s) = PyErr_Occurred s;
                         s = (if pending then logErrorMessage s else s)
                     in logger Fatal
                          (''PluginInterfaceInit: cannot import Python 3.5 script '%s' from '%s' : pythonScript=%s, shimLayerPath=%s, plugin '%s'' @ [CHR 0x27])
                          [LStr name, LStr path, LStr pythonScript, LStr shimLayerPath, LStr (sPluginName s)] s
                   else
                     logger Debug
                       (''%s:%d: python module loaded successfully, pModule=%p, plugin '%s'' @ [CHR 0x27])
                       [LStr ''PluginInterfaceInit'', LInt 292, LPtr (pModule s), LStr (sPluginName s)] s);
              s = PyGILState_Release state s
          in Inr (pModule s, s))"

subsection \<open>\<^verbatim>\<open>PluginInterfaceResolveSymbol\<close> (lines 306 to 334)\<close>

definition PluginInterfaceResolveSymbol :: "string \<Rightarrow> bridge \<Rightarrow> dispatcher option \<times> bridge" where
  "PluginInterfaceResolveSymbol symbol s =
     (if symbol = ''plugin_info'' then (Some Fn_plugin_info, s)
      else if symbol = ''plugin_init'' then (Some Fn_filter_plugin_init, s)
      else if symbol = ''plugin_shutdown'' then (Some Fn_plugin_shutdown, s)
      else if symbol = ''plugin_reconfigure'' then (Some Fn_plugin_reconfigure, s)
      else if symbol = ''plugin_ingest'' then (Some Fn_filter_plugin_ingest, s)
      else if symbol = ''plugin_start'' then
        (None,
         logger Warn (''FilterPluginInterface currently does not support 'plugin_start'' @ [CHR 0x27]) [] s)
      else
        (None,
         logger Fatal
           (''FilterPluginInterfaceResolveSymbol can not find symbol '%s' in the Filter Python plugin interface library, loaded plugin '%s'' @ [CHR 0x27])
           [LStr symbol, LStr (sPluginName s)] s))"

section \<open>Reading a trace\<close>

text \<open>The events one call added to the trace.\<close>

definition call_events :: "bridge \<Rightarrow> bridge \<Rightarrow> event list" where
  "call_events s s' = drop (length (trace s)) (trace s')"

text \<open>Interactions with the embedded runtime: everything but log lines and the native
  accesses to the record batch.\<close>

fun is_runtime_event :: "event \<Rightarrow> bool" where
  "is_runtime_event (Log sev fmt args) = False"
| "is_runtime_event (Ev_getAllReadings a) = False"
| "is_runtime_event (Ev_delete_ReadingSet a) = False"
| "is_runtime_event e = True"

fun is_log :: "severity \<Rightarrow> event \<Rightarrow> bool" where
  "is_log sev (Log sev' fmt args) = (sev' = sev)"
| "is_log sev e = False"

definition logs_at :: "severity \<Rightarrow> event list \<Rightarrow> event list" where
  "logs_at sev evs = filter (is_log sev) evs"

text \<open>Native accesses to the record batch at address \<open>a\<close>: reading it and deleting it.\<close>

fun touches_batch :: "ptr \<Rightarrow> event \<Rightarrow> bool" where
  "touches_batch a (Ev_getAllReadings b) = (a = b)"
| "touches_batch a (Ev_delete_ReadingSet b) = (a = b)"
| "touches_batch a e = False"

fun is_invocation :: "event \<Rightarrow> bool" where
  "is_invocation (Ev_CallFunction f args) = True"
| "is_invocation e = False"

fun is_marshalling :: "event \<Rightarrow> bool" where
  "is_marshalling (Ev_createReadingsList rs) = True"
| "is_marshalling e = False"

text \<open>The position of the first event satisfying \<open>P\<close> (the length of the list when none does).\<close>

definition first_pos :: "(event \<Rightarrow> bool) \<Rightarrow> event list \<Rightarrow> nat" where
  "first_pos P evs = length (takeWhile (\<lambda>e. \<not> P e) evs)"

text \<open>What follows the deletion of the batch at \<open>a\<close> in a trace.\<close>

definition after_delete :: "ptr \<Rightarrow> event list \<Rightarrow> event list" where
  "after_delete a evs = drop (Suc (first_pos (\<lambda>e. e = Ev_delete_ReadingSet a) evs)) evs"

text \<open>The trace of \<^verbatim>\<open>Py_CLEAR(v)\<close>.\<close>

definition decref_events :: "pyobj option \<Rightarrow> event list" where
  "decref_events v = (case v of None \<Rightarrow> [] | Some ob \<Rightarrow> [Ev_DECREF ob])"

text \<open>The lock discipline of one call that took the GIL: one acquisition, one release
  after it, and no runtime interaction after the release.\<close>

definition lock_discipline :: "event list \<Rightarrow> bool" where
  "lock_discipline evs =
     (count_list evs Ev_GIL_Ensure = 1 \<and>
      count_list evs Ev_GIL_Release = 1 \<and>
      first_pos (\<lambda>e. e = Ev_GIL_Ensure) evs < first_pos (\<lambda>e. e = Ev_GIL_Release) evs \<and>
      last (filter is_runtime_event evs) = Ev_GIL_Release)"

text \<open>The order a trace would show if the batch at \<open>a\<close> were deallocated right after
  marshalling and before the script callable is invoked.\<close>

definition freed_before_invocation :: "ptr \<Rightarrow> event list \<Rightarrow> bool" where
  "freed_before_invocation a evs =
     (first_pos is_marshalling evs < first_pos (\<lambda>e. e = Ev_delete_ReadingSet a) evs \<and>
      first_pos (\<lambda>e. e = Ev_delete_ReadingSet a) evs < first_pos is_invocation evs)"

section \<open>Sample inputs\<close>

text \<open>A bridge before \<^verbatim>\<open>PluginInterfaceInit\<close> (runtime not initialised, no module) and
  one after it, with a loaded module; the calling thread does not hold the GIL.\<close>

definition idle_bridge :: bridge where
  "idle_bridge =
     \<lparr>pModule = None, sPluginName = ''scale'', py_initialized = False, gil = False, err = False,
      refs = {#},
      program_name = [], sys_path = [], sys_argv = [], trace = []\<rparr>"

definition loaded_bridge :: bridge where
  "loaded_bridge =
     idle_bridge\<lparr>pModule := Some (PyObj 1), py_initialized := True, refs := {#PyObj 1#}\<rparr>"

text \<open>Runtimes: a shim whose entry points return an object; one whose entry points
  raise; one without the entry points; one whose attributes are not callable.\<close>

definition rt_returns :: "pyobj \<Rightarrow> runtime" where
  "rt_returns r =
     \<lparr>rt_getattr = (\<lambda>m n. Some (PyObj 2)), rt_callable = (\<lambda>f. True),
      rt_call = (\<lambda>f args. Some r), rt_import = (\<lambda>n. Some (PyObj 1))\<rparr>"

definition rt_raises :: runtime where
  "rt_raises =
     \<lparr>rt_getattr = (\<lambda>m n. Some (PyObj 2)), rt_callable = (\<lambda>f. True),
      rt_call = (\<lambda>f args. None), rt_import = (\<lambda>n. None)\<rparr>"

definition rt_missing :: runtime where
  "rt_missing =
     \<lparr>rt_getattr = (\<lambda>m n. None), rt_callable = (\<lambda>f. True),
      rt_call = (\<lambda>f args. None), rt_import = (\<lambda>n. Some (PyObj 1))\<rparr>"

definition rt_uncallable :: runtime where
  "rt_uncallable =
     \<lparr>rt_getattr = (\<lambda>m n. Some (PyLong 5)), rt_callable = (\<lambda>f. False),
      rt_call = (\<lambda>f args. None), rt_import = (\<lambda>n. Some (PyObj 1))\<rparr>"

text \<open>The process environment \<^verbatim>\<open>getenv\<close> reads: with and without \<^verbatim>\<open>FOGLAMP_ROOT\<close>.\<close>

definition env_with_root :: "string \<Rightarrow> string option" where
  "env_with_root name = (if name = ''FOGLAMP_ROOT'' then Some ''/usr/local/foglamp'' else None)"

definition env_without_root :: "string \<Rightarrow> string option" where
  "env_without_root name = (if name = ''PATH'' then Some ''/usr/bin'' else None)"

definition batch3 :: ReadingSet where
  "batch3 =
     \<lparr>rs_addr = 4096,
      rs_readings =
        [[(''asset'', FStr ''pump''), (''value'', FInt 1)],
         [(''asset'', FStr ''fan''), (''value'', FInt 2)],
         [(''asset'', FStr ''pump''), (''value'', FInt 3)]]\<rparr>"

definition config1 :: ConfigCategory where
  "config1 = \<lparr>itemsToJSON = ''{\"enable\":\"true\"}''\<rparr>"

section \<open>The paths of the entry points\<close>

lemmas op_defs = emit_def logger_def PyGILState_Ensure_def PyGILState_Release_def new_ref_def
  PyObject_GetAttrString_def PyCallable_Check_def PyErr_Occurred_def logErrorMessage_def
  PyCapsule_New_def PyObject_CallFunction_def Py_CLEAR_def getAllReadings_def delete_ReadingSet_def
  createReadingsList_def


lemma ingest_null_module:
  "pModule s = None \<Longrightarrow>
   filter_plugin_ingest_fn rt h d s =
     s\<lparr>trace := trace s @
        [Log Fatal (''plugin_handle: plugin_ingest(): pModule is NULL for plugin '%s'' @ [CHR 0x27]) [LStr (sPluginName s)]]\<rparr>"
  by (simp add: filter_plugin_ingest_fn_def logger_def emit_def)

lemma ingest_no_attr:
  assumes "pModule s = Some m" and "rt_getattr rt m ''plugin_ingest'' = None"
  shows "trace (filter_plugin_ingest_fn rt h d s) = trace s @
      [Ev_GIL_Ensure, Ev_GetAttrString m ''plugin_ingest'',
       Log Fatal (''Cannot find 'plugin_ingest' method in loaded python module '%s'' @ [CHR 0x27]) [LStr (sPluginName s)],
       Ev_Err_Occurred, Ev_logErrorMessage,
       Log Fatal (''Cannot call method plugin_ingestin loaded python module '%s'' @ [CHR 0x27]) [LStr (sPluginName s)],
       Ev_GIL_Release]"
    and "gil (filter_plugin_ingest_fn rt h d s) = gil s"
    and "err (filter_plugin_ingest_fn rt h d s) = False"
    and "refs (filter_plugin_ingest_fn rt h d s) = refs s"
    and "pModule (filter_plugin_ingest_fn rt h d s) = pModule s"
    and "sPluginName (filter_plugin_ingest_fn rt h d s) = sPluginName s"
  using assms by (simp_all add: filter_plugin_ingest_fn_def op_defs Let_def)

lemma ingest_not_callable:
  assumes "pModule s = Some m" and "rt_getattr rt m ''plugin_ingest'' = Some f" and "\<not> rt_callable rt f"
  shows "trace (filter_plugin_ingest_fn rt h d s) = trace s @
      [Ev_GIL_Ensure, Ev_GetAttrString m ''plugin_ingest'', Ev_Callable_Check (Some f), Ev_Err_Occurred] @
      (if err s then [Ev_logErrorMessage] else []) @
      [Log Fatal (''Cannot call method plugin_ingestin loaded python module '%s'' @ [CHR 0x27]) [LStr (sPluginName s)],
       Ev_DECREF f, Ev_GIL_Release]"
    and "gil (filter_plugin_ingest_fn rt h d s) = gil s"
    and "err (filter_plugin_ingest_fn rt h d s) = False"
    and "refs (filter_plugin_ingest_fn rt h d s) = refs s"
    and "pModule (filter_plugin_ingest_fn rt h d s) = pModule s"
    and "sPluginName (filter_plugin_ingest_fn rt h d s) = sPluginName s"
  using assms by (simp_all add: filter_plugin_ingest_fn_def op_defs Let_def)

lemma ingest_call_failed:
  assumes "pModule s = Some m" and "rt_getattr rt m ''plugin_ingest'' = Some f" and "rt_callable rt f"
    and "invoke rt (Some f) [ArgO h, ArgO (toScriptRepresentation (rs_readings d))] = None"
  shows "trace (filter_plugin_ingest_fn rt h d s) = trace s @
      [Ev_GIL_Ensure, Ev_GetAttrString m ''plugin_ingest'', Ev_Callable_Check (Some f),
       Ev_getAllReadings (rs_addr d), Ev_createReadingsList (rs_readings d),
       Ev_CallFunction (Some f) [ArgO h, ArgO (toScriptRepresentation (rs_readings d))],
       Ev_DECREF f, Ev_delete_ReadingSet (rs_addr d),
       Ev_DECREF (PyList (map reading_to_dict (rs_readings d))),
       Log Error (''Called python script method plugin_ingest : error while getting result object, plugin '%s'' @ [CHR 0x27]) [LStr (sPluginName s)],
       Ev_logErrorMessage, Ev_GIL_Release]"
    and "gil (filter_plugin_ingest_fn rt h d s) = gil s"
    and "err (filter_plugin_ingest_fn rt h d s) = False"
    and "refs (filter_plugin_ingest_fn rt h d s) = refs s"
    and "pModule (filter_plugin_ingest_fn rt h d s) = pModule s"
    and "sPluginName (filter_plugin_ingest_fn rt h d s) = sPluginName s"
  using assms by (simp_all add: filter_plugin_ingest_fn_def op_defs Let_def toScriptRepresentation_def)

lemma ingest_call_returned:
  assumes "pModule s = Some m" and "rt_getattr rt m ''plugin_ingest'' = Some f" and "rt_callable rt f"
    and "invoke rt (Some f) [ArgO h, ArgO (toScriptRepresentation (rs_readings d))] = Some r"
  shows "trace (filter_plugin_ingest_fn rt h d s) = trace s @
      [Ev_GIL_Ensure, Ev_GetAttrString m ''plugin_ingest'', Ev_Callable_Check (Some f),
       Ev_getAllReadings (rs_addr d), Ev_createReadingsList (rs_readings d),
       Ev_CallFunction (Some f) [ArgO h, ArgO (toScriptRepresentation (rs_readings d))],
       Ev_DECREF f, Ev_delete_ReadingSet (rs_addr d),
       Log Debug (''plugin_handle: plugin_ingest: got result object '%p', plugin '%s'' @ [CHR 0x27]) [LPtr (Some r), LStr (sPluginName s)],
       Ev_DECREF r, Ev_GIL_Release]"
    and "gil (filter_plugin_ingest_fn rt h d s) = gil s"
    and "err (filter_plugin_ingest_fn rt h d s) = err s"
    and "refs (filter_plugin_ingest_fn rt h d s) = add_mset (PyList (map reading_to_dict (rs_readings d))) (refs s)"
    and "pModule (filter_plugin_ingest_fn rt h d s) = pModule s"
    and "sPluginName (filter_plugin_ingest_fn rt h d s) = sPluginName s"
  using assms by (simp_all add: filter_plugin_ingest_fn_def op_defs Let_def toScriptRepresentation_def)

lemma init_null_module:
  "pModule s = None \<Longrightarrow>
   filter_plugin_init_fn rt c oh out s =
     (None, s\<lparr>trace := trace s @
        [Log Fatal (''plugin_handle: plugin_init(): pModule is NULL for plugin '%s'' @ [CHR 0x27]) [LStr (sPluginName s)]]\<rparr>)"
  by (simp add: filter_plugin_init_fn_def logger_def emit_def)

lemma init_no_attr:
  assumes "pModule s = Some m" and "rt_getattr rt m ''plugin_init'' = None"
  shows "fst (filter_plugin_init_fn rt c oh out s) = None"
    and "trace (snd (filter_plugin_init_fn rt c oh out s)) = trace s @
      [Ev_GIL_Ensure, Ev_GetAttrString m ''plugin_init'',
       Log Fatal (''Cannot find 'plugin_init' method in loaded python module '%s'' @ [CHR 0x27]) [LStr (sPluginName s)],
       Ev_Err_Occurred, Ev_logErrorMessage,
       Log Fatal (''Cannot call method plugin_init in loaded python module '%s'' @ [CHR 0x27]) [LStr (sPluginName s)],
       Ev_GIL_Release]"
    and "gil (snd (filter_plugin_init_fn rt c oh out s)) = gil s"
    and "err (snd (filter_plugin_init_fn rt c oh out s)) = False"
    and "refs (snd (filter_plugin_init_fn rt c oh out s)) = refs s"
    and "pModule (snd (filter_plugin_init_fn rt c oh out s)) = pModule s"
    and "sPluginName (snd (filter_plugin_init_fn rt c oh out s)) = sPluginName s"
  using assms by (simp_all add: filter_plugin_init_fn_def op_defs Let_def)

lemma init_not_callable:
  assumes "pModule s = Some m" and "rt_getattr rt m ''plugin_init'' = Some f" and "\<not> rt_callable rt f"
  shows "fst (filter_plugin_init_fn rt c oh out s) = None"
    and "trace (snd (filter_plugin_init_fn rt c oh out s)) = trace s @
      [Ev_GIL_Ensure, Ev_GetAttrString m ''plugin_init'', Ev_Callable_Check (Some f), Ev_Err_Occurred] @
      (if err s then [Ev_logErrorMessage] else []) @
      [Log Fatal (''Cannot call method plugin_init in loaded python module '%s'' @ [CHR 0x27]) [LStr (sPluginName s)],
       Ev_DECREF f, Ev_GIL_Release]"
    and "gil (snd (filter_plugin_init_fn rt c oh out s)) = gil s"
    and "err (snd (filter_plugin_init_fn rt c oh out s)) = False"
    and "refs (snd (filter_plugin_init_fn rt c oh out s)) = refs s"
    and "pModule (snd (filter_plugin_init_fn rt c oh out s)) = pModule s"
    and "sPluginName (snd (filter_plugin_init_fn rt c oh out s)) = sPluginName s"
  using assms by (simp_all add: filter_plugin_init_fn_def op_defs Let_def)

lemma init_call_failed:
  assumes "pModule s = Some m" and "rt_getattr rt m ''plugin_init'' = Some f" and "rt_callable rt f"
    and "invoke rt (Some f) [ArgS (itemsToJSON c), ArgO (capsule oh), ArgO (capsule out)] = None"
  shows "fst (filter_plugin_init_fn rt c oh out s) = None"
    and "trace (snd (filter_plugin_init_fn rt c oh out s)) = trace s @
      [Ev_GIL_Ensure, Ev_GetAttrString m ''plugin_init'', Ev_Callable_Check (Some f),
       Ev_Capsule_New out, Ev_Capsule_New oh,
       Ev_CallFunction (Some f) [ArgS (itemsToJSON c), ArgO (capsule oh), ArgO (capsule out)],
       Ev_DECREF f] @ decref_events (capsule oh) @ decref_events (capsule out) @
      [Log Error (''Called python script method plugin_init : error while getting result object, plugin '%s'' @ [CHR 0x27]) [LStr (sPluginName s)],
       Ev_logErrorMessage, Ev_GIL_Release]"
    and "gil (snd (filter_plugin_init_fn rt c oh out s)) = gil s"
    and "err (snd (filter_plugin_init_fn rt c oh out s)) = False"
    and "refs (snd (filter_plugin_init_fn rt c oh out s)) = refs s"
    and "pModule (snd (filter_plugin_init_fn rt c oh out s)) = pModule s"
    and "sPluginName (snd (filter_plugin_init_fn rt c oh out s)) = sPluginName s"
  using assms
  by (cases "capsule oh"; cases "capsule out";
      simp add: filter_plugin_init_fn_def op_defs Let_def decref_events_def)+

lemma invoke_Some_args: "invoke rt cb args = Some r \<Longrightarrow> ArgO None \<notin> set args"
  by (auto simp: invoke_def split: option.splits if_splits)

lemma capsule_cases: "capsule p = None \<or> capsule p = Some (PyCapsule p)"
  by (simp add: capsule_def)

lemma init_call_returned:
  assumes "pModule s = Some m" and "rt_getattr rt m ''plugin_init'' = Some f" and "rt_callable rt f"
    and "invoke rt (Some f) [ArgS (itemsToJSON c), ArgO (capsule oh), ArgO (capsule out)] = Some r"
  shows "fst (filter_plugin_init_fn rt c oh out s) = Some r"
    and "trace (snd (filter_plugin_init_fn rt c oh out s)) = trace s @
      [Ev_GIL_Ensure, Ev_GetAttrString m ''plugin_init'', Ev_Callable_Check (Some f),
       Ev_Capsule_New out, Ev_Capsule_New oh,
       Ev_CallFunction (Some f) [ArgS (itemsToJSON c), ArgO (capsule oh), ArgO (capsule out)],
       Ev_DECREF f, Ev_DECREF (PyCapsule oh), Ev_DECREF (PyCapsule out),
       Log Debug (''plugin_handle: plugin_register_init(): got result object '%p', plugin '%s'' @ [CHR 0x27]) [LPtr (Some r), LStr (sPluginName s)],
       Ev_GIL_Release]"
    and "gil (snd (filter_plugin_init_fn rt c oh out s)) = gil s"
    and "err (snd (filter_plugin_init_fn rt c oh out s)) = err s"
    and "refs (snd (filter_plugin_init_fn rt c oh out s)) = add_mset r (refs s)"
    and "pModule (snd (filter_plugin_init_fn rt c oh out s)) = pModule s"
    and "sPluginName (snd (filter_plugin_init_fn rt c oh out s)) = sPluginName s"
proof -
  from invoke_Some_args[OF assms(4)] capsule_cases[of oh] capsule_cases[of out]
  have caps: "capsule oh = Some (PyCapsule oh)" "capsule out = Some (PyCapsule out)"
    by auto
  note facts = assms caps
  show "fst (filter_plugin_init_fn rt c oh out s) = Some r"
    using facts by (simp add: filter_plugin_init_fn_def op_defs Let_def)
  show "trace (snd (filter_plugin_init_fn rt c oh out s)) = trace s @
      [Ev_GIL_Ensure, Ev_GetAttrString m ''plugin_init'', Ev_Callable_Check (Some f),
       Ev_Capsule_New out, Ev_Capsule_New oh,
       Ev_CallFunction (Some f) [ArgS (itemsToJSON c), ArgO (capsule oh), ArgO (capsule out)],
       Ev_DECREF f, Ev_DECREF (PyCapsule oh), Ev_DECREF (PyCapsule out),
       Log Debug (''plugin_handle: plugin_register_init(): got result object '%p', plugin '%s'' @ [CHR 0x27]) [LPtr (Some r), LStr (sPluginName s)],
       Ev_GIL_Release]"
    using facts by (simp add: filter_plugin_init_fn_def op_defs Let_def)
  show "gil (snd (filter_plugin_init_fn rt c oh out s)) = gil s"
    using facts by (simp add: filter_plugin_init_fn_def op_defs Let_def)
  show "err (snd (filter_plugin_init_fn rt c oh out s)) = err s"
    using facts by (simp add: filter_plugin_init_fn_def op_defs Let_def)
  show "refs (snd (filter_plugin_init_fn rt c oh out s)) = add_mset r (refs s)"
    using facts by (simp add: filter_plugin_init_fn_def op_defs Let_def)
  show "pModule (snd (filter_plugin_init_fn rt c oh out s)) = pModule s"
    using facts by (simp add: filter_plugin_init_fn_def op_defs Let_def)
  show "sPluginName (snd (filter_plugin_init_fn rt c oh out s)) = sPluginName s"
    using facts by (simp add: filter_plugin_init_fn_def op_defs Let_def)
qed

lemmas sample_defs = idle_bridge_def loaded_bridge_def rt_returns_def rt_raises_def rt_missing_def
  rt_uncallable_def batch3_def config1_def

text \<open>
  C4. A dispatcher entry point called while \<open>pModule\<close> is null returns its inert value
  (a null handle for init, a plain return for ingest). The call adds exactly one entry to
  the trace, a fatal log line naming the plugin and the entry point. It makes no
  runtime interaction, so the GIL is not acquired, and it changes nothing else.
\<close>

theorem null_module_is_inert:
  "pModule s = None \<Longrightarrow>
     filter_plugin_init_fn rt c oh out s =
       (None, s\<lparr>trace := trace s @
          [Log Fatal (''plugin_handle: plugin_init(): pModule is NULL for plugin '%s'' @ [CHR 0x27])
             [LStr (sPluginName s)]]\<rparr>) \<and>
     filter_plugin_ingest_fn rt h d s =
       s\<lparr>trace := trace s @
          [Log Fatal (''plugin_handle: plugin_ingest(): pModule is NULL for plugin '%s'' @ [CHR 0x27])
             [LStr (sPluginName s)]]\<rparr> \<and>
     logs_at Fatal (call_events s (snd (filter_plugin_init_fn rt c oh out s))) =
       [Log Fatal (''plugin_handle: plugin_init(): pModule is NULL for plugin '%s'' @ [CHR 0x27])
          [LStr (sPluginName s)]] \<and>
     logs_at Fatal (call_events s (filter_plugin_ingest_fn rt h d s)) =
       [Log Fatal (''plugin_handle: plugin_ingest(): pModule is NULL for plugin '%s'' @ [CHR 0x27])
          [LStr (sPluginName s)]] \<and>
     filter is_runtime_event (call_events s (snd (filter_plugin_init_fn rt c oh out s))) = [] \<and>
     filter is_runtime_event (call_events s (filter_plugin_ingest_fn rt h d s)) = [] \<and>
     gil (snd (filter_plugin_init_fn rt c oh out s)) = gil s \<and>
     gil (filter_plugin_ingest_fn rt h d s) = gil s"
  by (simp add: init_null_module ingest_null_module call_events_def logs_at_def)

theorem null_module_is_inert_witness:
  "pModule idle_bridge = None \<and>
   fst (filter_plugin_init_fn (rt_returns PyNone) config1 7 8 idle_bridge) = None \<and>
   trace (snd (filter_plugin_init_fn (rt_returns PyNone) config1 7 8 idle_bridge)) =
     [Log Fatal (''plugin_handle: plugin_init(): pModule is NULL for plugin '%s'' @ [CHR 0x27])
        [LStr ''scale'']] \<and>
   trace (filter_plugin_ingest_fn (rt_returns PyNone) (Some PyNone) batch3 idle_bridge) =
     [Log Fatal (''plugin_handle: plugin_ingest(): pModule is NULL for plugin '%s'' @ [CHR 0x27])
        [LStr ''scale'']]"
  using null_module_is_inert[of idle_bridge "rt_returns PyNone" config1 7 8 "Some PyNone" batch3]
  by (simp add: idle_bridge_def)

lemma ingest_paths [consumes 1, case_names no_attr not_callable call_failed call_returned]:
  assumes "pModule s = Some m"
  obtains "rt_getattr rt m ''plugin_ingest'' = None"
  | f where "rt_getattr rt m ''plugin_ingest'' = Some f" and "\<not> rt_callable rt f"
  | f where "rt_getattr rt m ''plugin_ingest'' = Some f" and "rt_callable rt f"
      and "invoke rt (Some f) [ArgO h, ArgO (toScriptRepresentation (rs_readings d))] = None"
  | f r where "rt_getattr rt m ''plugin_ingest'' = Some f" and "rt_callable rt f"
      and "invoke rt (Some f) [ArgO h, ArgO (toScriptRepresentation (rs_readings d))] = Some r"
  by (cases "rt_getattr rt m ''plugin_ingest''") auto

lemma init_paths [consumes 1, case_names no_attr not_callable call_failed call_returned]:
  assumes "pModule s = Some m"
  obtains "rt_getattr rt m ''plugin_init'' = None"
  | f where "rt_getattr rt m ''plugin_init'' = Some f" and "\<not> rt_callable rt f"
  | f where "rt_getattr rt m ''plugin_init'' = Some f" and "rt_callable rt f"
      and "invoke rt (Some f) [ArgS (itemsToJSON c), ArgO (capsule oh), ArgO (capsule out)] = None"
  | f r where "rt_getattr rt m ''plugin_init'' = Some f" and "rt_callable rt f"
      and "invoke rt (Some f) [ArgS (itemsToJSON c), ArgO (capsule oh), ArgO (capsule out)] = Some r"
  by (cases "rt_getattr rt m ''plugin_init''") auto

lemma ingest_lock:
  assumes m: "pModule s = Some m"
  shows "lock_discipline (call_events s (filter_plugin_ingest_fn rt h d s))"
    and "Ev_GIL_Ensure \<in> set (call_events s (filter_plugin_ingest_fn rt h d s))"
    and "last (call_events s (filter_plugin_ingest_fn rt h d s)) = Ev_GIL_Release"
    and "gil (filter_plugin_ingest_fn rt h d s) = gil s"
proof -
  let ?P = "lock_discipline (call_events s (filter_plugin_ingest_fn rt h d s)) \<and>
    Ev_GIL_Ensure \<in> set (call_events s (filter_plugin_ingest_fn rt h d s)) \<and>
    last (call_events s (filter_plugin_ingest_fn rt h d s)) = Ev_GIL_Release \<and>
    gil (filter_plugin_ingest_fn rt h d s) = gil s"
  from m have ?P
  proof (cases rule: ingest_paths[where rt=rt and h=h and d=d])
    case no_attr
    show ?thesis
      by (simp add: ingest_no_attr[OF m no_attr] call_events_def lock_discipline_def first_pos_def)
  next
    case (not_callable f)
    show ?thesis
      by (simp add: ingest_not_callable[OF m not_callable] call_events_def lock_discipline_def first_pos_def)
  next
    case (call_failed f)
    show ?thesis
      by (simp add: ingest_call_failed[OF m call_failed] call_events_def lock_discipline_def first_pos_def)
  next
    case (call_returned f r)
    show ?thesis
      by (simp add: ingest_call_returned[OF m call_returned] call_events_def lock_discipline_def first_pos_def)
  qed
  then show "lock_discipline (call_events s (filter_plugin_ingest_fn rt h d s))"
    and "Ev_GIL_Ensure \<in> set (call_events s (filter_plugin_ingest_fn rt h d s))"
    and "last (call_events s (filter_plugin_ingest_fn rt h d s)) = Ev_GIL_Release"
    and "gil (filter_plugin_ingest_fn rt h d s) = gil s"
    by simp_all
qed

lemma init_lock:
  assumes m: "pModule s = Some m"
  shows "lock_discipline (call_events s (snd (filter_plugin_init_fn rt c oh out s)))"
    and "Ev_GIL_Ensure \<in> set (call_events s (snd (filter_plugin_init_fn rt c oh out s)))"
    and "last (call_events s (snd (filter_plugin_init_fn rt c oh out s))) = Ev_GIL_Release"
    and "gil (snd (filter_plugin_init_fn rt c oh out s)) = gil s"
proof -
  let ?P = "lock_discipline (call_events s (snd (filter_plugin_init_fn rt c oh out s))) \<and>
    Ev_GIL_Ensure \<in> set (call_events s (snd (filter_plugin_init_fn rt c oh out s))) \<and>
    last (call_events s (snd (filter_plugin_init_fn rt c oh out s))) = Ev_GIL_Release \<and>
    gil (snd (filter_plugin_init_fn rt c oh out s)) = gil s"
  from m have ?P
  proof (cases rule: init_paths[where rt=rt and c=c and oh=oh and out=out])
    case no_attr
    show ?thesis
      by (simp add: init_no_attr[OF m no_attr] call_events_def lock_discipline_def first_pos_def)
  next
    case (not_callable f)
    show ?thesis
      by (simp add: init_not_callable[OF m not_callable] call_events_def lock_discipline_def first_pos_def)
  next
    case (call_failed f)
    show ?thesis
      by (cases "capsule oh"; cases "capsule out";
          simp add: init_call_failed[OF m call_failed] call_events_def lock_discipline_def first_pos_def
            decref_events_def)
  next
    case (call_returned f r)
    show ?thesis
      by (simp add: init_call_returned[OF m call_returned] call_events_def lock_discipline_def first_pos_def)
  qed
  then show "lock_discipline (call_events s (snd (filter_plugin_init_fn rt c oh out s)))"
    and "Ev_GIL_Ensure \<in> set (call_events s (snd (filter_plugin_init_fn rt c oh out s)))"
    and "last (call_events s (snd (filter_plugin_init_fn rt c oh out s))) = Ev_GIL_Release"
    and "gil (snd (filter_plugin_init_fn rt c oh out s)) = gil s"
    by simp_all
qed

text \<open>
  C3. A dispatcher entry point (ingest, init) takes the GIL exactly when \<open>pModule\<close> is not
  null. Once it has taken it, the call's trace holds one acquisition and one release, the
  release after the acquisition, and the release is the last runtime interaction (indeed
  the last event) of the call. On every path the thread's GIL state at return is what it
  was at entry.
\<close>

theorem gil_released_once_and_last:
  "(Ev_GIL_Ensure \<in> set (call_events s (filter_plugin_ingest_fn rt h d s))) = (pModule s \<noteq> None) \<and>
   (Ev_GIL_Ensure \<in> set (call_events s (filter_plugin_ingest_fn rt h d s)) \<longrightarrow>
      lock_discipline (call_events s (filter_plugin_ingest_fn rt h d s)) \<and>
      last (call_events s (filter_plugin_ingest_fn rt h d s)) = Ev_GIL_Release) \<and>
   gil (filter_plugin_ingest_fn rt h d s) = gil s \<and>
   (Ev_GIL_Ensure \<in> set (call_events s (snd (filter_plugin_init_fn rt c oh out s)))) = (pModule s \<noteq> None) \<and>
   (Ev_GIL_Ensure \<in> set (call_events s (snd (filter_plugin_init_fn rt c oh out s))) \<longrightarrow>
      lock_discipline (call_events s (snd (filter_plugin_init_fn rt c oh out s))) \<and>
      last (call_events s (snd (filter_plugin_init_fn rt c oh out s))) = Ev_GIL_Release) \<and>
   gil (snd (filter_plugin_init_fn rt c oh out s)) = gil s"
proof (cases "pModule s")
  case None
  then show ?thesis
    by (simp add: init_null_module ingest_null_module call_events_def)
next
  case (Some m)
  with ingest_lock[OF Some, of rt h d] init_lock[OF Some, of rt c oh out] show ?thesis
    by simp
qed

theorem gil_released_once_and_last_witness:
  "Ev_GIL_Ensure \<in> set (call_events loaded_bridge (filter_plugin_ingest_fn rt_raises (Some PyNone) batch3 loaded_bridge)) \<and>
   lock_discipline (call_events loaded_bridge (filter_plugin_ingest_fn rt_raises (Some PyNone) batch3 loaded_bridge)) \<and>
   gil (filter_plugin_ingest_fn rt_raises (Some PyNone) batch3 loaded_bridge) = False \<and>
   Ev_GIL_Ensure \<in> set (call_events loaded_bridge (snd (filter_plugin_init_fn rt_missing config1 7 8 loaded_bridge))) \<and>
   lock_discipline (call_events loaded_bridge (snd (filter_plugin_init_fn rt_missing config1 7 8 loaded_bridge))) \<and>
   gil (snd (filter_plugin_init_fn rt_missing config1 7 8 loaded_bridge)) = False"
  using gil_released_once_and_last[of loaded_bridge rt_raises "Some PyNone" batch3 config1 7 8]
    gil_released_once_and_last[of loaded_bridge rt_missing "Some PyNone" batch3 config1 7 8]
  by (simp add: loaded_bridge_def idle_bridge_def)

lemma ingest_call_failed_frame:
  assumes "pModule s = Some m" and "rt_getattr rt m ''plugin_ingest'' = Some f" and "rt_callable rt f"
    and "invoke rt (Some f) [ArgO h, ArgO (toScriptRepresentation (rs_readings d))] = None"
  shows "(filter_plugin_ingest_fn rt h d s)\<lparr>trace := trace s\<rparr> = s\<lparr>err := False\<rparr>"
  using assms by (simp add: filter_plugin_ingest_fn_def op_defs Let_def toScriptRepresentation_def)

lemma init_call_failed_frame:
  assumes "pModule s = Some m" and "rt_getattr rt m ''plugin_init'' = Some f" and "rt_callable rt f"
    and "invoke rt (Some f) [ArgS (itemsToJSON c), ArgO (capsule oh), ArgO (capsule out)] = None"
  shows "(snd (filter_plugin_init_fn rt c oh out s))\<lparr>trace := trace s\<rparr> = s\<lparr>err := False\<rparr>"
  using assms
  by (cases "capsule oh"; cases "capsule out";
      simp add: filter_plugin_init_fn_def op_defs Let_def)

lemma ingest_call_failed_logs:
  assumes "pModule s = Some m" and "rt_getattr rt m ''plugin_ingest'' = Some f" and "rt_callable rt f"
    and "invoke rt (Some f) [ArgO h, ArgO (toScriptRepresentation (rs_readings d))] = None"
  shows "logs_at Error (call_events s (filter_plugin_ingest_fn rt h d s)) =
           [Log Error (''Called python script method plugin_ingest : error while getting result object, plugin '%s'' @ [CHR 0x27])
              [LStr (sPluginName s)]]"
    and "logs_at Fatal (call_events s (filter_plugin_ingest_fn rt h d s)) = []"
    and "first_pos is_invocation (call_events s (filter_plugin_ingest_fn rt h d s))
           < first_pos (\<lambda>e. e = Ev_logErrorMessage) (call_events s (filter_plugin_ingest_fn rt h d s))"
    and "count_list (call_events s (filter_plugin_ingest_fn rt h d s)) Ev_logErrorMessage = 1"
  by (simp_all add: ingest_call_failed(1)[OF assms] call_events_def logs_at_def first_pos_def)

lemma init_call_failed_logs:
  assumes "pModule s = Some m" and "rt_getattr rt m ''plugin_init'' = Some f" and "rt_callable rt f"
    and "invoke rt (Some f) [ArgS (itemsToJSON c), ArgO (capsule oh), ArgO (capsule out)] = None"
  shows "logs_at Error (call_events s (snd (filter_plugin_init_fn rt c oh out s))) =
           [Log Error (''Called python script method plugin_init : error while getting result object, plugin '%s'' @ [CHR 0x27])
              [LStr (sPluginName s)]]"
    and "logs_at Fatal (call_events s (snd (filter_plugin_init_fn rt c oh out s))) = []"
    and "first_pos is_invocation (call_events s (snd (filter_plugin_init_fn rt c oh out s)))
           < first_pos (\<lambda>e. e = Ev_logErrorMessage) (call_events s (snd (filter_plugin_init_fn rt c oh out s)))"
    and "count_list (call_events s (snd (filter_plugin_init_fn rt c oh out s))) Ev_logErrorMessage = 1"
  by (cases "capsule oh"; cases "capsule out";
      simp add: init_call_failed(2)[OF assms] call_events_def logs_at_def first_pos_def decref_events_def)+

text \<open>
  C7. When the callable of an entry point is found and invocable but its invocation
  yields no result object, the call logs exactly one line at error severity, naming
  the entry point and the plugin, and none at fatal severity; after the failed invocation
  it calls \<^verbatim>\<open>logErrorMessage\<close> once, which leaves no error pending; init returns the null
  handle and ingest just returns. The bridge is left as it was found (module handle,
  plugin name, GIL state, owned references), with no pending error, so later calls find it
  usable.
\<close>

theorem invocation_failure_is_recoverable:
  "pModule s = Some m \<Longrightarrow>
   (rt_getattr rt m ''plugin_ingest'' = Some f \<and> rt_callable rt f \<and>
    invoke rt (Some f) [ArgO h, ArgO (toScriptRepresentation (rs_readings d))] = None \<longrightarrow>
      logs_at Error (call_events s (filter_plugin_ingest_fn rt h d s)) =
        [Log Error (''Called python script method plugin_ingest : error while getting result object, plugin '%s'' @ [CHR 0x27])
           [LStr (sPluginName s)]] \<and>
      logs_at Fatal (call_events s (filter_plugin_ingest_fn rt h d s)) = [] \<and>
      count_list (call_events s (filter_plugin_ingest_fn rt h d s)) Ev_logErrorMessage = 1 \<and>
      first_pos is_invocation (call_events s (filter_plugin_ingest_fn rt h d s))
        < first_pos (\<lambda>e. e = Ev_logErrorMessage) (call_events s (filter_plugin_ingest_fn rt h d s)) \<and>
      (filter_plugin_ingest_fn rt h d s)\<lparr>trace := trace s\<rparr> = s\<lparr>err := False\<rparr>) \<and>
   (rt_getattr rt m ''plugin_init'' = Some g \<and> rt_callable rt g \<and>
    invoke rt (Some g) [ArgS (itemsToJSON c), ArgO (capsule oh), ArgO (capsule out)] = None \<longrightarrow>
      fst (filter_plugin_init_fn rt c oh out s) = None \<and>
      logs_at Error (call_events s (snd (filter_plugin_init_fn rt c oh out s))) =
        [Log Error (''Called python script method plugin_init : error while getting result object, plugin '%s'' @ [CHR 0x27])
           [LStr (sPluginName s)]] \<and>
      logs_at Fatal (call_events s (snd (filter_plugin_init_fn rt c oh out s))) = [] \<and>
      count_list (call_events s (snd (filter_plugin_init_fn rt c oh out s))) Ev_logErrorMessage = 1 \<and>
      first_pos is_invocation (call_events s (snd (filter_plugin_init_fn rt c oh out s)))
        < first_pos (\<lambda>e. e = Ev_logErrorMessage) (call_events s (snd (filter_plugin_init_fn rt c oh out s))) \<and>
      (snd (filter_plugin_init_fn rt c oh out s))\<lparr>trace := trace s\<rparr> = s\<lparr>err := False\<rparr>)"
  using ingest_call_failed_logs[of s m rt f h d] ingest_call_failed_frame[of s m rt f h d]
    init_call_failed_logs[of s m rt g c oh out] init_call_failed_frame[of s m rt g c oh out]
    init_call_failed(1)[of s m rt g c oh out]
  by blast

theorem invocation_failure_is_recoverable_witness:
  "pModule loaded_bridge = Some (PyObj 1) \<and>
   rt_getattr rt_raises (PyObj 1) ''plugin_ingest'' = Some (PyObj 2) \<and>
   rt_getattr rt_raises (PyObj 1) ''plugin_init'' = Some (PyObj 2) \<and>
   rt_callable rt_raises (PyObj 2) \<and>
   invoke rt_raises (Some (PyObj 2)) [ArgO (Some PyNone), ArgO (toScriptRepresentation (rs_readings batch3))] = None \<and>
   invoke rt_raises (Some (PyObj 2)) [ArgS (itemsToJSON config1), ArgO (capsule 7), ArgO (capsule 8)] = None \<and>
   logs_at Error (call_events loaded_bridge (filter_plugin_ingest_fn rt_raises (Some PyNone) batch3 loaded_bridge)) =
     [Log Error (''Called python script method plugin_ingest : error while getting result object, plugin '%s'' @ [CHR 0x27])
        [LStr ''scale'']] \<and>
   (filter_plugin_ingest_fn rt_raises (Some PyNone) batch3 loaded_bridge)\<lparr>trace := []\<rparr> = loaded_bridge \<and>
   fst (filter_plugin_init_fn rt_raises config1 7 8 loaded_bridge) = None \<and>
   logs_at Error (call_events loaded_bridge (snd (filter_plugin_init_fn rt_raises config1 7 8 loaded_bridge))) =
     [Log Error (''Called python script method plugin_init : error while getting result object, plugin '%s'' @ [CHR 0x27])
        [LStr ''scale'']] \<and>
   (snd (filter_plugin_init_fn rt_raises config1 7 8 loaded_bridge))\<lparr>trace := []\<rparr> = loaded_bridge"
  using invocation_failure_is_recoverable[of loaded_bridge "PyObj 1" rt_raises "PyObj 2" "Some PyNone" batch3
      "PyObj 2" config1 7 8]
  by (simp add: loaded_bridge_def idle_bridge_def rt_raises_def invoke_def)

lemma init_result:
  "fst (filter_plugin_init_fn rt c oh out s) =
     (case pModule s of
        None \<Rightarrow> None
      | Some m \<Rightarrow>
          (case rt_getattr rt m ''plugin_init'' of
             None \<Rightarrow> None
           | Some f \<Rightarrow>
               if rt_callable rt f
               then invoke rt (Some f) [ArgS (itemsToJSON c), ArgO (capsule oh), ArgO (capsule out)]
               else None))"
proof (cases "pModule s")
  case None
  then show ?thesis by (simp add: init_null_module)
next
  case (Some m)
  then show ?thesis
  proof (cases rule: init_paths[where rt=rt and c=c and oh=oh and out=out])
    case no_attr
    then show ?thesis using Some by (simp add: init_no_attr(1))
  next
    case (not_callable f)
    then show ?thesis using Some by (simp add: init_not_callable(1))
  next
    case (call_failed f)
    then show ?thesis using Some by (simp add: init_call_failed(1))
  next
    case (call_returned f r)
    then show ?thesis using Some by (simp add: init_call_returned(1))
  qed
qed

lemma init_refs:
  "refs (snd (filter_plugin_init_fn rt c oh out s)) =
     (case fst (filter_plugin_init_fn rt c oh out s) of
        None \<Rightarrow> refs s
      | Some r \<Rightarrow> add_mset r (refs s))"
proof (cases "pModule s")
  case None
  then show ?thesis by (simp add: init_null_module)
next
  case (Some m)
  then show ?thesis
  proof (cases rule: init_paths[where rt=rt and c=c and oh=oh and out=out])
    case no_attr
    then show ?thesis using Some by (simp add: init_no_attr)
  next
    case (not_callable f)
    then show ?thesis using Some by (simp add: init_not_callable)
  next
    case (call_failed f)
    then show ?thesis using Some by (simp add: init_call_failed)
  next
    case (call_returned f r)
    then show ?thesis using Some by (simp add: init_call_returned)
  qed
qed

text \<open>
  C10. The handle \<^verbatim>\<open>filter_plugin_init_fn\<close> returns is exactly what invoking the
  script's \<^verbatim>\<open>plugin_init\<close> returns, whatever object that is, when the module handle is
  non-null and the callable is found and invocable, and null otherwise. So the handle is
  non-null if and only if all three hold and the invocation yields a result object; and
  the reference to that object is kept: at return the bridge owns one reference to the
  handle more than at entry, and nothing else.
\<close>

theorem init_handle_is_raw_result:
  "fst (filter_plugin_init_fn rt c oh out s) =
     (case pModule s of
        None \<Rightarrow> None
      | Some m \<Rightarrow>
          (case rt_getattr rt m ''plugin_init'' of
             None \<Rightarrow> None
           | Some f \<Rightarrow>
               if rt_callable rt f
               then invoke rt (Some f) [ArgS (itemsToJSON c), ArgO (capsule oh), ArgO (capsule out)]
               else None)) \<and>
   (fst (filter_plugin_init_fn rt c oh out s) \<noteq> None) =
     (\<exists>m f. pModule s = Some m \<and> rt_getattr rt m ''plugin_init'' = Some f \<and> rt_callable rt f \<and>
        invoke rt (Some f) [ArgS (itemsToJSON c), ArgO (capsule oh), ArgO (capsule out)] \<noteq> None) \<and>
   refs (snd (filter_plugin_init_fn rt c oh out s)) =
     (case fst (filter_plugin_init_fn rt c oh out s) of
        None \<Rightarrow> refs s
      | Some r \<Rightarrow> add_mset r (refs s))"
proof -
  have iff: "(fst (filter_plugin_init_fn rt c oh out s) \<noteq> None) =
     (\<exists>m f. pModule s = Some m \<and> rt_getattr rt m ''plugin_init'' = Some f \<and> rt_callable rt f \<and>
        invoke rt (Some f) [ArgS (itemsToJSON c), ArgO (capsule oh), ArgO (capsule out)] \<noteq> None)"
    unfolding init_result by (auto split: option.splits)
  show ?thesis
    using init_result[of rt c oh out s] iff init_refs[of rt c oh out s] by blast
qed

theorem init_handle_is_raw_result_witness:
  "fst (filter_plugin_init_fn (rt_returns PyNone) config1 7 8 loaded_bridge) = Some PyNone \<and>
   refs (snd (filter_plugin_init_fn (rt_returns PyNone) config1 7 8 loaded_bridge)) = {#PyNone, PyObj 1#} \<and>
   fst (filter_plugin_init_fn (rt_returns (PyBool False)) config1 7 8 loaded_bridge) = Some (PyBool False) \<and>
   fst (filter_plugin_init_fn rt_raises config1 7 8 loaded_bridge) = None \<and>
   fst (filter_plugin_init_fn (rt_returns (PyObj 9)) config1 7 8 idle_bridge) = None"
  using init_handle_is_raw_result[of "rt_returns PyNone" config1 7 8 loaded_bridge]
    init_handle_is_raw_result[of "rt_returns (PyBool False)" config1 7 8 loaded_bridge]
    init_handle_is_raw_result[of rt_raises config1 7 8 loaded_bridge]
    init_handle_is_raw_result[of "rt_returns (PyObj 9)" config1 7 8 idle_bridge]
  by (simp add: loaded_bridge_def idle_bridge_def rt_returns_def rt_raises_def invoke_def capsule_def)

lemma ingest_null_module_refs: "pModule s = None \<Longrightarrow> refs (filter_plugin_ingest_fn rt h d s) = refs s"
  by (simp add: ingest_null_module)

text \<open>
  C2, as stated, fails: init does not release the value its callable returned. With a
  loaded module and a shim whose \<^verbatim>\<open>plugin_init\<close> returns an object, the call returns
  owning one reference more than at entry, the reference to the returned object.
\<close>

theorem init_keeps_returned_reference:
  "refs (snd (filter_plugin_init_fn (rt_returns (PyObj 9)) config1 7 8 loaded_bridge)) =
     add_mset (PyObj 9) (refs loaded_bridge) \<and>
   refs (snd (filter_plugin_init_fn (rt_returns (PyObj 9)) config1 7 8 loaded_bridge)) \<noteq> refs loaded_bridge"
proof -
  have "refs (snd (filter_plugin_init_fn (rt_returns (PyObj 9)) config1 7 8 loaded_bridge)) =
     add_mset (PyObj 9) (refs loaded_bridge)"
    by (rule init_call_returned(5)[where m="PyObj 1" and f="PyObj 2"])
       (simp_all add: loaded_bridge_def idle_bridge_def rt_returns_def invoke_def capsule_def)
  then show ?thesis by simp
qed

text \<open>
  C2, amended. Init releases every transient reference it created except the value its
  callable returned: at return it owns what it owned at entry, plus one reference to
  the returned handle when there is one. Ingest returns owning exactly what it owned at
  entry on each failure path (module null, callable missing, callable not invocable,
  invocation failed), having released the callable reference and, after a failed
  invocation, the readings list. On the path where the invocation returned a value,
  ingest releases the callable reference and the returned value, and owns at return
  nothing beyond what it owned at entry and the readings list.
\<close>

theorem transient_references_released:
  "refs (snd (filter_plugin_init_fn rt c oh out s)) =
     (case fst (filter_plugin_init_fn rt c oh out s) of
        None \<Rightarrow> refs s
      | Some r \<Rightarrow> add_mset r (refs s)) \<and>
   (pModule s = None \<longrightarrow> refs (filter_plugin_ingest_fn rt h d s) = refs s) \<and>
   (pModule s = Some m \<and> rt_getattr rt m ''plugin_ingest'' = None \<longrightarrow>
      refs (filter_plugin_ingest_fn rt h d s) = refs s) \<and>
   (pModule s = Some m \<and> rt_getattr rt m ''plugin_ingest'' = Some f \<and> \<not> rt_callable rt f \<longrightarrow>
      refs (filter_plugin_ingest_fn rt h d s) = refs s \<and>
      Ev_DECREF f \<in> set (call_events s (filter_plugin_ingest_fn rt h d s))) \<and>
   (pModule s = Some m \<and> rt_getattr rt m ''plugin_ingest'' = Some f \<and> rt_callable rt f \<and>
    invoke rt (Some f) [ArgO h, ArgO (toScriptRepresentation (rs_readings d))] = None \<longrightarrow>
      refs (filter_plugin_ingest_fn rt h d s) = refs s \<and>
      Ev_DECREF f \<in> set (call_events s (filter_plugin_ingest_fn rt h d s)) \<and>
      Ev_DECREF (PyList (map reading_to_dict (rs_readings d)))
        \<in> set (call_events s (filter_plugin_ingest_fn rt h d s))) \<and>
   (pModule s = Some m \<and> rt_getattr rt m ''plugin_ingest'' = Some f \<and> rt_callable rt f \<and>
    invoke rt (Some f) [ArgO h, ArgO (toScriptRepresentation (rs_readings d))] = Some r \<longrightarrow>
      Ev_DECREF f \<in> set (call_events s (filter_plugin_ingest_fn rt h d s)) \<and>
      Ev_DECREF r \<in> set (call_events s (filter_plugin_ingest_fn rt h d s)) \<and>
      refs s \<subseteq># refs (filter_plugin_ingest_fn rt h d s) \<and>
      refs (filter_plugin_ingest_fn rt h d s) \<subseteq>#
        add_mset (PyList (map reading_to_dict (rs_readings d))) (refs s))"
proof -
  have not_callable: "refs (filter_plugin_ingest_fn rt h d s) = refs s \<and>
      Ev_DECREF f \<in> set (call_events s (filter_plugin_ingest_fn rt h d s))"
    if "pModule s = Some m" "rt_getattr rt m ''plugin_ingest'' = Some f" "\<not> rt_callable rt f"
    by (simp add: ingest_not_callable[OF that] call_events_def)
  have failed: "refs (filter_plugin_ingest_fn rt h d s) = refs s \<and>
      Ev_DECREF f \<in> set (call_events s (filter_plugin_ingest_fn rt h d s)) \<and>
      Ev_DECREF (PyList (map reading_to_dict (rs_readings d)))
        \<in> set (call_events s (filter_plugin_ingest_fn rt h d s))"
    if "pModule s = Some m" "rt_getattr rt m ''plugin_ingest'' = Some f" "rt_callable rt f"
      "invoke rt (Some f) [ArgO h, ArgO (toScriptRepresentation (rs_readings d))] = None"
    by (simp add: ingest_call_failed[OF that] call_events_def)
  have returned: "Ev_DECREF f \<in> set (call_events s (filter_plugin_ingest_fn rt h d s)) \<and>
      Ev_DECREF r \<in> set (call_events s (filter_plugin_ingest_fn rt h d s)) \<and>
      refs s \<subseteq># refs (filter_plugin_ingest_fn rt h d s) \<and>
      refs (filter_plugin_ingest_fn rt h d s) \<subseteq>#
        add_mset (PyList (map reading_to_dict (rs_readings d))) (refs s)"
    if "pModule s = Some m" "rt_getattr rt m ''plugin_ingest'' = Some f" "rt_callable rt f"
      "invoke rt (Some f) [ArgO h, ArgO (toScriptRepresentation (rs_readings d))] = Some r"
    by (simp add: ingest_call_returned[OF that] call_events_def)
  show ?thesis
    using init_refs[of rt c oh out s] ingest_null_module_refs[of s rt h d]
      ingest_no_attr(4)[of s m rt h d] not_callable failed returned
    by blast
qed

theorem transient_references_released_witness:
  "pModule idle_bridge = None \<and>
   refs (filter_plugin_ingest_fn rt_raises (Some PyNone) batch3 idle_bridge) = {#} \<and>
   pModule loaded_bridge = Some (PyObj 1) \<and>
   rt_getattr rt_missing (PyObj 1) ''plugin_ingest'' = None \<and>
   refs (filter_plugin_ingest_fn rt_missing (Some PyNone) batch3 loaded_bridge) = {#PyObj 1#} \<and>
   rt_getattr rt_uncallable (PyObj 1) ''plugin_ingest'' = Some (PyLong 5) \<and>
   \<not> rt_callable rt_uncallable (PyLong 5) \<and>
   refs (filter_plugin_ingest_fn rt_uncallable (Some PyNone) batch3 loaded_bridge) = {#PyObj 1#} \<and>
   rt_getattr rt_raises (PyObj 1) ''plugin_ingest'' = Some (PyObj 2) \<and>
   rt_callable rt_raises (PyObj 2) \<and>
   invoke rt_raises (Some (PyObj 2)) [ArgO (Some PyNone), ArgO (toScriptRepresentation (rs_readings batch3))] = None \<and>
   refs (filter_plugin_ingest_fn rt_raises (Some PyNone) batch3 loaded_bridge) = {#PyObj 1#} \<and>
   rt_getattr (rt_returns PyNone) (PyObj 1) ''plugin_ingest'' = Some (PyObj 2) \<and>
   rt_callable (rt_returns PyNone) (PyObj 2) \<and>
   invoke (rt_returns PyNone) (Some (PyObj 2)) [ArgO (Some PyNone), ArgO (toScriptRepresentation (rs_readings batch3))] = Some PyNone \<and>
   Ev_DECREF PyNone \<in> set (call_events loaded_bridge (filter_plugin_ingest_fn (rt_returns PyNone) (Some PyNone) batch3 loaded_bridge)) \<and>
   refs (snd (filter_plugin_init_fn rt_raises config1 7 8 loaded_bridge)) = {#PyObj 1#}"
  using transient_references_released[of rt_raises config1 7 8 idle_bridge "Some PyNone" batch3]
    transient_references_released[of rt_missing config1 7 8 loaded_bridge "Some PyNone" batch3 "PyObj 1"]
    transient_references_released[of rt_uncallable config1 7 8 loaded_bridge "Some PyNone" batch3 "PyObj 1" "PyLong 5"]
    transient_references_released[of rt_raises config1 7 8 loaded_bridge "Some PyNone" batch3 "PyObj 1" "PyObj 2"]
    transient_references_released[of "rt_returns PyNone" config1 7 8 loaded_bridge "Some PyNone" batch3 "PyObj 1" "PyObj 2" PyNone]
    init_result[of rt_raises config1 7 8 loaded_bridge]
  by (simp add: loaded_bridge_def idle_bridge_def rt_returns_def rt_raises_def rt_missing_def
      rt_uncallable_def invoke_def capsule_def toScriptRepresentation_def)

lemma ingest_untouched_after_delete:
  "filter (touches_batch (rs_addr d))
     (after_delete (rs_addr d) (call_events s (filter_plugin_ingest_fn rt h d s))) = []"
proof (cases "pModule s")
  case None
  then show ?thesis
    by (simp add: ingest_null_module call_events_def after_delete_def first_pos_def)
next
  case (Some m)
  then show ?thesis
  proof (cases rule: ingest_paths[where rt=rt and h=h and d=d])
    case no_attr
    show ?thesis
      by (simp add: ingest_no_attr(1)[OF Some no_attr] call_events_def after_delete_def first_pos_def)
  next
    case (not_callable f)
    show ?thesis
      by (simp add: ingest_not_callable(1)[OF Some not_callable] call_events_def after_delete_def first_pos_def)
  next
    case (call_failed f)
    show ?thesis
      by (simp add: ingest_call_failed(1)[OF Some call_failed] call_events_def after_delete_def first_pos_def)
  next
    case (call_returned f r)
    show ?thesis
      by (simp add: ingest_call_returned(1)[OF Some call_returned] call_events_def after_delete_def first_pos_def)
  qed
qed

lemma ingest_batch_order:
  assumes "pModule s = Some m" and "rt_getattr rt m ''plugin_ingest'' = Some f" and "rt_callable rt f"
  shows "filter (touches_batch (rs_addr d)) (call_events s (filter_plugin_ingest_fn rt h d s)) =
           [Ev_getAllReadings (rs_addr d), Ev_delete_ReadingSet (rs_addr d)] \<and>
         count_list (call_events s (filter_plugin_ingest_fn rt h d s)) (Ev_delete_ReadingSet (rs_addr d)) = 1 \<and>
         first_pos is_marshalling (call_events s (filter_plugin_ingest_fn rt h d s))
           < first_pos is_invocation (call_events s (filter_plugin_ingest_fn rt h d s)) \<and>
         first_pos (\<lambda>e. e = Ev_delete_ReadingSet (rs_addr d)) (call_events s (filter_plugin_ingest_fn rt h d s))
           = first_pos is_invocation (call_events s (filter_plugin_ingest_fn rt h d s)) + 2 \<and>
         call_events s (filter_plugin_ingest_fn rt h d s)
             ! (first_pos is_invocation (call_events s (filter_plugin_ingest_fn rt h d s)) + 1) = Ev_DECREF f"
proof (cases "invoke rt (Some f) [ArgO h, ArgO (toScriptRepresentation (rs_readings d))]")
  case None
  show ?thesis
    by (simp add: ingest_call_failed(1)[OF assms None] call_events_def first_pos_def)
next
  case (Some r)
  show ?thesis
    by (simp add: ingest_call_returned(1)[OF assms Some] call_events_def first_pos_def)
qed

text \<open>
  C1, as stated, fails: the batch is not deallocated before the script callable is
  invoked. With a loaded module and a shim whose \<^verbatim>\<open>plugin_ingest\<close> returns, the
  invocation is the sixth event of the call and the deallocation the eighth.
\<close>

theorem batch_freed_after_invocation:
  "\<not> freed_before_invocation (rs_addr batch3)
       (call_events loaded_bridge (filter_plugin_ingest_fn (rt_returns PyNone) (Some PyNone) batch3 loaded_bridge)) \<and>
   first_pos is_invocation
       (call_events loaded_bridge (filter_plugin_ingest_fn (rt_returns PyNone) (Some PyNone) batch3 loaded_bridge)) = 5 \<and>
   first_pos (\<lambda>e. e = Ev_delete_ReadingSet (rs_addr batch3))
       (call_events loaded_bridge (filter_plugin_ingest_fn (rt_returns PyNone) (Some PyNone) batch3 loaded_bridge)) = 7"
proof -
  have "trace (filter_plugin_ingest_fn (rt_returns PyNone) (Some PyNone) batch3 loaded_bridge) =
      trace loaded_bridge @
      [Ev_GIL_Ensure, Ev_GetAttrString (PyObj 1) ''plugin_ingest'', Ev_Callable_Check (Some (PyObj 2)),
       Ev_getAllReadings (rs_addr batch3), Ev_createReadingsList (rs_readings batch3),
       Ev_CallFunction (Some (PyObj 2)) [ArgO (Some PyNone), ArgO (toScriptRepresentation (rs_readings batch3))],
       Ev_DECREF (PyObj 2), Ev_delete_ReadingSet (rs_addr batch3),
       Log Debug (''plugin_handle: plugin_ingest: got result object '%p', plugin '%s'' @ [CHR 0x27])
         [LPtr (Some PyNone), LStr (sPluginName loaded_bridge)],
       Ev_DECREF PyNone, Ev_GIL_Release]"
    by (rule ingest_call_returned(1))
       (simp_all add: loaded_bridge_def idle_bridge_def rt_returns_def invoke_def toScriptRepresentation_def)
  then show ?thesis
    by (simp add: call_events_def freed_before_invocation_def first_pos_def)
qed

text \<open>
  C1, amended. In every ingest call whose callable is found and invocable, the batch is
  read once, to marshal it, and deallocated once; the marshalling precedes the invocation
  of the callable, and the deallocation comes after the invocation has returned, with
  only the release of the callable reference in between, whether the invocation
  succeeded or failed. On every path of ingest, nothing reads or deallocates the batch
  after its deallocation.
\<close>

theorem batch_freed_once_after_invocation:
  "filter (touches_batch (rs_addr d))
     (after_delete (rs_addr d) (call_events s (filter_plugin_ingest_fn rt h d s))) = [] \<and>
   (pModule s = Some m \<and> rt_getattr rt m ''plugin_ingest'' = Some f \<and> rt_callable rt f \<longrightarrow>
      filter (touches_batch (rs_addr d)) (call_events s (filter_plugin_ingest_fn rt h d s)) =
        [Ev_getAllReadings (rs_addr d), Ev_delete_ReadingSet (rs_addr d)] \<and>
      count_list (call_events s (filter_plugin_ingest_fn rt h d s)) (Ev_delete_ReadingSet (rs_addr d)) = 1 \<and>
      first_pos is_marshalling (call_events s (filter_plugin_ingest_fn rt h d s))
        < first_pos is_invocation (call_events s (filter_plugin_ingest_fn rt h d s)) \<and>
      first_pos (\<lambda>e. e = Ev_delete_ReadingSet (rs_addr d)) (call_events s (filter_plugin_ingest_fn rt h d s))
        = first_pos is_invocation (call_events s (filter_plugin_ingest_fn rt h d s)) + 2 \<and>
      call_events s (filter_plugin_ingest_fn rt h d s)
        ! (first_pos is_invocation (call_events s (filter_plugin_ingest_fn rt h d s)) + 1) = Ev_DECREF f)"
  using ingest_untouched_after_delete[of d s rt h] ingest_batch_order[of s m rt f d h]
  by blast

theorem batch_freed_once_after_invocation_witness:
  "pModule loaded_bridge = Some (PyObj 1) \<and>
   rt_getattr rt_raises (PyObj 1) ''plugin_ingest'' = Some (PyObj 2) \<and>
   rt_callable rt_raises (PyObj 2) \<and>
   filter (touches_batch 4096) (call_events loaded_bridge (filter_plugin_ingest_fn rt_raises (Some PyNone) batch3 loaded_bridge)) =
     [Ev_getAllReadings 4096, Ev_delete_ReadingSet 4096] \<and>
   first_pos (\<lambda>e. e = Ev_delete_ReadingSet 4096) (call_events loaded_bridge (filter_plugin_ingest_fn rt_raises (Some PyNone) batch3 loaded_bridge))
     = first_pos is_invocation (call_events loaded_bridge (filter_plugin_ingest_fn rt_raises (Some PyNone) batch3 loaded_bridge)) + 2"
  using batch_freed_once_after_invocation[of batch3 loaded_bridge rt_raises "Some PyNone" "PyObj 1" "PyObj 2"]
  by (simp add: loaded_bridge_def idle_bridge_def rt_raises_def batch3_def)

text \<open>
  C5. \<^verbatim>\<open>PluginInterfaceResolveSymbol\<close> maps each of the five supported names to its
  dispatcher, without logging or touching the bridge; \<^verbatim>\<open>plugin_start\<close>, and only it, gives
  null with one warning and no fatal line; every other string gives null with one fatal
  line naming the symbol and the plugin. The answer depends on the name alone.
\<close>

theorem resolve_symbol_closed_mapping:
  "PluginInterfaceResolveSymbol ''plugin_info'' s = (Some Fn_plugin_info, s) \<and>
   PluginInterfaceResolveSymbol ''plugin_init'' s = (Some Fn_filter_plugin_init, s) \<and>
   PluginInterfaceResolveSymbol ''plugin_shutdown'' s = (Some Fn_plugin_shutdown, s) \<and>
   PluginInterfaceResolveSymbol ''plugin_reconfigure'' s = (Some Fn_plugin_reconfigure, s) \<and>
   PluginInterfaceResolveSymbol ''plugin_ingest'' s = (Some Fn_filter_plugin_ingest, s) \<and>
   PluginInterfaceResolveSymbol ''plugin_start'' s =
     (None, s\<lparr>trace := trace s @
        [Log Warn (''FilterPluginInterface currently does not support 'plugin_start'' @ [CHR 0x27]) []]\<rparr>) \<and>
   (name \<notin> set [''plugin_info'', ''plugin_init'', ''plugin_shutdown'', ''plugin_reconfigure'',
                  ''plugin_ingest'', ''plugin_start''] \<longrightarrow>
      PluginInterfaceResolveSymbol name s =
        (None, s\<lparr>trace := trace s @
           [Log Fatal
              (''FilterPluginInterfaceResolveSymbol can not find symbol '%s' in the Filter Python plugin interface library, loaded plugin '%s'' @ [CHR 0x27])
              [LStr name, LStr (sPluginName s)]]\<rparr>)) \<and>
   (logs_at Warn (call_events s (snd (PluginInterfaceResolveSymbol name s))) \<noteq> []) = (name = ''plugin_start'') \<and>
   (logs_at Fatal (call_events s (snd (PluginInterfaceResolveSymbol name s))) \<noteq> []) =
     (fst (PluginInterfaceResolveSymbol name s) = None \<and> name \<noteq> ''plugin_start'') \<and>
   fst (PluginInterfaceResolveSymbol name s) = fst (PluginInterfaceResolveSymbol name s')"
  by (simp add: PluginInterfaceResolveSymbol_def logger_def emit_def call_events_def logs_at_def)

theorem resolve_symbol_closed_mapping_witness:
  "''not_a_real_symbol'' \<notin> set [''plugin_info'', ''plugin_init'', ''plugin_shutdown'', ''plugin_reconfigure'',
                  ''plugin_ingest'', ''plugin_start''] \<and>
   PluginInterfaceResolveSymbol ''not_a_real_symbol'' idle_bridge =
     (None, idle_bridge\<lparr>trace :=
        [Log Fatal
           (''FilterPluginInterfaceResolveSymbol can not find symbol '%s' in the Filter Python plugin interface library, loaded plugin '%s'' @ [CHR 0x27])
           [LStr ''not_a_real_symbol'', LStr ''scale'']]\<rparr>) \<and>
   logs_at Fatal (call_events idle_bridge (snd (PluginInterfaceResolveSymbol ''plugin_start'' idle_bridge))) = [] \<and>
   fst (PluginInterfaceResolveSymbol ''plugin_start'' idle_bridge) = None"
  using resolve_symbol_closed_mapping[of idle_bridge "''not_a_real_symbol''" loaded_bridge]
    resolve_symbol_closed_mapping[of idle_bridge "''plugin_start''" loaded_bridge]
  by (simp add: idle_bridge_def)

lemma inj_to_py: "inj to_py"
  by (rule injI) (auto simp: to_py_def split: fvalue.splits)

lemma reading_to_dict_get:
  "py_dict_get (reading_to_dict r) (PyUnicode k) = map_option to_py (map_of r k)"
  by (induction r) (auto simp: py_dict_get_def reading_to_dict_def)

lemma ingest_passes_marshalled_list:
  assumes "pModule s = Some m" and "rt_getattr rt m ''plugin_ingest'' = Some f" and "rt_callable rt f"
  shows "filter is_invocation (call_events s (filter_plugin_ingest_fn rt h d s)) =
           [Ev_CallFunction (Some f) [ArgO h, ArgO (toScriptRepresentation (rs_readings d))]]"
proof (cases "invoke rt (Some f) [ArgO h, ArgO (toScriptRepresentation (rs_readings d))]")
  case None
  show ?thesis
    by (simp add: ingest_call_failed(1)[OF assms None] call_events_def)
next
  case (Some r)
  show ?thesis
    by (simp add: ingest_call_returned(1)[OF assms Some] call_events_def)
qed

text \<open>
  C6. For every record batch the marshaller returns a non-null script list with one
  mapping per record, in the order of the input: the list is as long as the batch, and
  its \<open>i\<close>-th mapping holds, under each field identity of the \<open>i\<close>-th record, that field's
  value (values are converted injectively) and holds no other key of that form. The empty
  batch gives the empty list, not null. Ingest hands exactly this list, built from the
  batch's readings, to the script callable.
\<close>

theorem marshaller_preserves_batch:
  "py_list_items (toScriptRepresentation rs) \<noteq> None \<and>
   (\<exists>xs. py_list_items (toScriptRepresentation rs) = Some xs \<and>
      length xs = length rs \<and>
      (\<forall>i<length rs. \<forall>k.
         py_dict_get (xs ! i) (PyUnicode k) = map_option to_py (map_of (rs ! i) k))) \<and>
   inj to_py \<and>
   toScriptRepresentation [] = Some (PyList []) \<and>
   (pModule s = Some m \<and> rt_getattr rt m ''plugin_ingest'' = Some f \<and> rt_callable rt f \<longrightarrow>
      filter is_invocation (call_events s (filter_plugin_ingest_fn rt h d s)) =
        [Ev_CallFunction (Some f) [ArgO h, ArgO (toScriptRepresentation (rs_readings d))]])"
proof -
  have items: "py_list_items (toScriptRepresentation rs) = Some (map reading_to_dict rs)"
    by (simp add: py_list_items_def toScriptRepresentation_def)
  have "\<exists>xs. py_list_items (toScriptRepresentation rs) = Some xs \<and>
      length xs = length rs \<and>
      (\<forall>i<length rs. \<forall>k.
         py_dict_get (xs ! i) (PyUnicode k) = map_option to_py (map_of (rs ! i) k))"
    unfolding items by (simp add: reading_to_dict_get)
  moreover have "toScriptRepresentation [] = Some (PyList [])"
    by (simp add: toScriptRepresentation_def)
  ultimately show ?thesis
    using items inj_to_py ingest_passes_marshalled_list[of s m rt f h d] by simp
qed

theorem marshaller_preserves_batch_witness:
  "py_list_items (toScriptRepresentation (rs_readings batch3)) =
     Some [PyDict [(PyUnicode ''asset'', PyUnicode ''pump''), (PyUnicode ''value'', PyLong 1)],
           PyDict [(PyUnicode ''asset'', PyUnicode ''fan''), (PyUnicode ''value'', PyLong 2)],
           PyDict [(PyUnicode ''asset'', PyUnicode ''pump''), (PyUnicode ''value'', PyLong 3)]] \<and>
   pModule loaded_bridge = Some (PyObj 1) \<and>
   rt_getattr (rt_returns PyNone) (PyObj 1) ''plugin_ingest'' = Some (PyObj 2) \<and>
   rt_callable (rt_returns PyNone) (PyObj 2) \<and>
   filter is_invocation (call_events loaded_bridge (filter_plugin_ingest_fn (rt_returns PyNone) (Some PyNone) batch3 loaded_bridge)) =
     [Ev_CallFunction (Some (PyObj 2)) [ArgO (Some PyNone), ArgO (toScriptRepresentation (rs_readings batch3))]]"
proof -
  have "py_list_items (toScriptRepresentation (rs_readings batch3)) =
     Some [PyDict [(PyUnicode ''asset'', PyUnicode ''pump''), (PyUnicode ''value'', PyLong 1)],
           PyDict [(PyUnicode ''asset'', PyUnicode ''fan''), (PyUnicode ''value'', PyLong 2)],
           PyDict [(PyUnicode ''asset'', PyUnicode ''pump''), (PyUnicode ''value'', PyLong 3)]]"
    by (simp add: py_list_items_def toScriptRepresentation_def reading_to_dict_def to_py_def batch3_def)
  then show ?thesis
    using marshaller_preserves_batch[of "rs_readings batch3" loaded_bridge "PyObj 1" "rt_returns PyNone" "PyObj 2"
        "Some PyNone" batch3]
    by (simp add: loaded_bridge_def idle_bridge_def rt_returns_def)
qed

lemma last_index_append:
  "last_index c (xs @ ys) i acc = last_index c ys (i + length xs) (last_index c xs i acc)"
  by (induction xs arbitrary: i acc) auto

lemma find_last_of_snoc: "find_last_of (xs @ [c]) c = Some (length xs)"
  by (simp add: find_last_of_def last_index_append)

lemma shim_path_split:
  "root @ SHIM_SCRIPT_REL_PATH = (root @ ''/python/foglamp/plugins/common/shim'') @ [CHR ''/'']"
  by (simp add: SHIM_SCRIPT_REL_PATH_def)

lemma shimLayerPath_eq:
  "substr_before (root @ SHIM_SCRIPT_REL_PATH) (find_last_of (root @ SHIM_SCRIPT_REL_PATH) (CHR ''/''))
     = root @ ''/python/foglamp/plugins/common/shim''"
  unfolding shim_path_split find_last_of_snoc substr_before_def by simp

lemma pythonScript_eq:
  "substr_after (root @ SHIM_SCRIPT_REL_PATH) (find_last_of (root @ SHIM_SCRIPT_REL_PATH) (CHR ''/'')) = []"
  unfolding shim_path_split find_last_of_snoc substr_after_def by simp

lemmas startup_defs = Py_Initialize_def PyEval_SaveThread_def sys_path_append_def
  PyImport_ImportModule_def

lemma PluginInterfaceInit_no_root:
  "getenv ''FOGLAMP_ROOT'' = None \<Longrightarrow>
   PluginInterfaceInit getenv rt pluginName pluginPathName s = Inl Null_String_Construction"
  by (simp add: PluginInterfaceInit_def)

lemma PluginInterfaceInit_no_thread_state:
  assumes "getenv ''FOGLAMP_ROOT'' = Some root" and "py_initialized s" and "\<not> gil s"
  shows "PluginInterfaceInit getenv rt pluginName pluginPathName s = Inl SaveThread_Without_GIL"
  using assms
  by (simp add: PluginInterfaceInit_def Let_def emit_def startup_defs)

lemma PluginInterfaceInit_import_failed:
  assumes "getenv ''FOGLAMP_ROOT'' = Some root" and "rt_import rt SHIM_SCRIPT_NAME = None"
    and "py_initialized s \<longrightarrow> gil s"
  shows "PluginInterfaceInit getenv rt pluginName pluginPathName s =
    Inr (None,
      s\<lparr>pModule := None, sPluginName := pluginName, py_initialized := True, gil := False, err := False,
        refs := add_mset (PyUnicode (root @ ''/python''))
                 (add_mset (PyUnicode (root @ ''/python/foglamp/plugins/common/shim'')) (refs s)),
        program_name := SHIM_SCRIPT_NAME,
        sys_path := sys_path s @ [root @ ''/python/foglamp/plugins/common/shim'', root @ ''/python''],
        sys_argv := ['''', pluginName],
        trace := trace s @
          [Ev_DecodeLocale SHIM_SCRIPT_NAME, Ev_SetProgramName SHIM_SCRIPT_NAME, Ev_RawFree SHIM_SCRIPT_NAME,
           Ev_Initialize, Ev_InitThreads, Ev_SaveThread, Ev_GIL_Ensure,
           Log Debug
             (''SouthPlugin PythonInterface %s:%d: shimLayerPath=%s, foglampPythonDir=%s, plugin '%s'' @ [CHR 0x27])
             [LStr ''PluginInterfaceInit'', LInt 252, LStr (root @ ''/python/foglamp/plugins/common/shim''),
              LStr (root @ ''/python''), LStr pluginName],
           Ev_Sys_GetObject ''path'',
           Ev_Unicode_FromString (root @ ''/python/foglamp/plugins/common/shim''),
           Ev_List_Append (root @ ''/python/foglamp/plugins/common/shim''),
           Ev_Unicode_FromString (root @ ''/python''), Ev_List_Append (root @ ''/python''),
           Ev_DecodeLocale '''', Ev_DecodeLocale pluginName, Ev_Sys_SetArgv ['''', pluginName],
           Ev_ImportModule SHIM_SCRIPT_NAME, Ev_Err_Occurred, Ev_logErrorMessage,
           Log Fatal
             (''PluginInterfaceInit: cannot import Python 3.5 script '%s' from '%s' : pythonScript=%s, shimLayerPath=%s, plugin '%s'' @ [CHR 0x27])
             [LStr SHIM_SCRIPT_NAME, LStr (root @ SHIM_SCRIPT_REL_PATH), LStr [],
              LStr (root @ ''/python/foglamp/plugins/common/shim''), LStr pluginName],
           Ev_GIL_Release]\<rparr>)"
  using assms
  by (cases "py_initialized s")
     (simp_all add: PluginInterfaceInit_def Let_def shimLayerPath_eq pythonScript_eq op_defs startup_defs
        cong: let_weak_cong prod.case_cong_weak)

lemma PluginInterfaceInit_imported:
  assumes "getenv ''FOGLAMP_ROOT'' = Some root" and "rt_import rt SHIM_SCRIPT_NAME = Some m"
    and "py_initialized s \<longrightarrow> gil s"
  shows "PluginInterfaceInit getenv rt pluginName pluginPathName s =
    Inr (Some m,
      s\<lparr>pModule := Some m, sPluginName := pluginName, py_initialized := True, gil := False,
        refs := add_mset m (add_mset (PyUnicode (root @ ''/python''))
                 (add_mset (PyUnicode (root @ ''/python/foglamp/plugins/common/shim'')) (refs s))),
        program_name := SHIM_SCRIPT_NAME,
        sys_path := sys_path s @ [root @ ''/python/foglamp/plugins/common/shim'', root @ ''/python''],
        sys_argv := ['''', pluginName],
        trace := trace s @
          [Ev_DecodeLocale SHIM_SCRIPT_NAME, Ev_SetProgramName SHIM_SCRIPT_NAME, Ev_RawFree SHIM_SCRIPT_NAME,
           Ev_Initialize, Ev_InitThreads, Ev_SaveThread, Ev_GIL_Ensure,
           Log Debug
             (''SouthPlugin PythonInterface %s:%d: shimLayerPath=%s, foglampPythonDir=%s, plugin '%s'' @ [CHR 0x27])
             [LStr ''PluginInterfaceInit'', LInt 252, LStr (root @ ''/python/foglamp/plugins/common/shim''),
              LStr (root @ ''/python''), LStr pluginName],
           Ev_Sys_GetObject ''path'',
           Ev_Unicode_FromString (root @ ''/python/foglamp/plugins/common/shim''),
           Ev_List_Append (root @ ''/python/foglamp/plugins/common/shim''),
           Ev_Unicode_FromString (root @ ''/python''), Ev_List_Append (root @ ''/python''),
           Ev_DecodeLocale '''', Ev_DecodeLocale pluginName, Ev_Sys_SetArgv ['''', pluginName],
           Ev_ImportModule SHIM_SCRIPT_NAME,
           Log Debug
             (''%s:%d: python module loaded successfully, pModule=%p, plugin '%s'' @ [CHR 0x27])
             [LStr ''PluginInterfaceInit'', LInt 292, LPtr (Some m), LStr pluginName],
           Ev_GIL_Release]\<rparr>)"
  using assms
  by (cases "py_initialized s")
     (simp_all add: PluginInterfaceInit_def Let_def shimLayerPath_eq pythonScript_eq op_defs startup_defs
        cong: let_weak_cong prod.case_cong_weak)

text \<open>
  C8. With \<^verbatim>\<open>FOGLAMP_ROOT\<close> set, \<^verbatim>\<open>PluginInterfaceInit\<close> called on a runtime that is not
  yet initialised (or by a thread that holds the GIL) returns what the import of the shim
  module returned and stores the same handle in \<open>pModule\<close>, and it returns with the GIL
  released. When the import fails it calls \<^verbatim>\<open>logErrorMessage\<close> once, after the import,
  leaving no error pending, logs one fatal line naming the plugin, and returns the null
  handle; the bridge is then inert: a later init returns null and neither init nor ingest
  makes any runtime interaction. When the import succeeds no fatal line is logged. The
  call does not reach the import exactly when the runtime is already initialised and
  the calling thread does not hold the GIL: \<^verbatim>\<open>PyEval_SaveThread\<close> then ends the process.
\<close>

theorem startup_import_outcomes:
  "getenv ''FOGLAMP_ROOT'' = Some root \<Longrightarrow>
   (case PluginInterfaceInit getenv rt pluginName pluginPathName s of
      Inl fault \<Rightarrow> fault = SaveThread_Without_GIL \<and> py_initialized s \<and> \<not> gil s
    | Inr (ret, s') \<Rightarrow>
        (py_initialized s \<longrightarrow> gil s) \<and>
        ret = rt_import rt SHIM_SCRIPT_NAME \<and> pModule s' = ret \<and> sPluginName s' = pluginName \<and>
        py_initialized s' \<and> \<not> gil s' \<and>
        (ret = None \<longrightarrow>
           count_list (call_events s s') Ev_logErrorMessage = 1 \<and>
           first_pos (\<lambda>e. e = Ev_ImportModule SHIM_SCRIPT_NAME) (call_events s s')
             < first_pos (\<lambda>e. e = Ev_logErrorMessage) (call_events s s') \<and>
           \<not> err s' \<and>
           logs_at Fatal (call_events s s') =
             [Log Fatal
                (''PluginInterfaceInit: cannot import Python 3.5 script '%s' from '%s' : pythonScript=%s, shimLayerPath=%s, plugin '%s'' @ [CHR 0x27])
                [LStr SHIM_SCRIPT_NAME, LStr (root @ SHIM_SCRIPT_REL_PATH), LStr [],
                 LStr (root @ ''/python/foglamp/plugins/common/shim''), LStr pluginName]] \<and>
           fst (filter_plugin_init_fn rt2 c oh out s') = None \<and>
           filter is_runtime_event (call_events s' (snd (filter_plugin_init_fn rt2 c oh out s'))) = [] \<and>
           filter is_runtime_event (call_events s' (filter_plugin_ingest_fn rt2 h d s')) = []) \<and>
        (ret \<noteq> None \<longrightarrow> logs_at Fatal (call_events s s') = []))"
proof -
  assume root: "getenv ''FOGLAMP_ROOT'' = Some root"
  show ?thesis
  proof (cases "py_initialized s \<and> \<not> gil s")
    case True
    then show ?thesis
      by (simp add: PluginInterfaceInit_no_thread_state[where getenv=getenv and rt=rt, OF root])
  next
    case False
    then have ready: "py_initialized s \<longrightarrow> gil s" by simp
    show ?thesis
    proof (cases "rt_import rt SHIM_SCRIPT_NAME")
      case None
      show ?thesis
        unfolding PluginInterfaceInit_import_failed[where getenv=getenv and rt=rt, OF root None ready]
        using ready
        by (simp add: None call_events_def logs_at_def first_pos_def init_null_module ingest_null_module)
    next
      case (Some m)
      show ?thesis
        unfolding PluginInterfaceInit_imported[where getenv=getenv and rt=rt, OF root Some ready]
        using ready
        by (simp add: call_events_def logs_at_def Some)
    qed
  qed
qed

theorem startup_import_outcomes_witness:
  "env_with_root ''FOGLAMP_ROOT'' = Some ''/usr/local/foglamp'' \<and>
   \<not> py_initialized idle_bridge \<and>
   rt_import rt_raises SHIM_SCRIPT_NAME = None \<and>
   (case PluginInterfaceInit env_with_root rt_raises ''scale'' ''/plugins'' idle_bridge of
      Inl fault \<Rightarrow> False
    | Inr (ret, s') \<Rightarrow>
        ret = None \<and> pModule s' = None \<and> py_initialized s' \<and> \<not> gil s' \<and> \<not> err s' \<and>
        count_list (call_events idle_bridge s') Ev_logErrorMessage = 1 \<and>
        fst (filter_plugin_init_fn (rt_returns PyNone) config1 7 8 s') = None) \<and>
   rt_import (rt_returns PyNone) SHIM_SCRIPT_NAME = Some (PyObj 1) \<and>
   (case PluginInterfaceInit env_with_root (rt_returns PyNone) ''scale'' ''/plugins'' idle_bridge of
      Inl fault \<Rightarrow> False
    | Inr (ret, s') \<Rightarrow> ret = Some (PyObj 1) \<and> pModule s' = Some (PyObj 1) \<and> \<not> gil s') \<and>
   py_initialized loaded_bridge \<and> \<not> gil loaded_bridge \<and>
   PluginInterfaceInit env_with_root rt_raises ''scale'' ''/plugins'' loaded_bridge =
     Inl SaveThread_Without_GIL"
  using startup_import_outcomes[where getenv=env_with_root and root="''/usr/local/foglamp''" and rt=rt_raises
      and pluginName="''scale''" and pluginPathName="''/plugins''" and s=idle_bridge
      and ?rt2.0="rt_returns PyNone" and c=config1 and oh=7 and out=8 and h="Some PyNone" and d=batch3]
    startup_import_outcomes[where getenv=env_with_root and root="''/usr/local/foglamp''" and rt="rt_returns PyNone"
      and pluginName="''scale''" and pluginPathName="''/plugins''" and s=idle_bridge
      and ?rt2.0="rt_returns PyNone" and c=config1 and oh=7 and out=8 and h="Some PyNone" and d=batch3]
    startup_import_outcomes[where getenv=env_with_root and root="''/usr/local/foglamp''" and rt=rt_raises
      and pluginName="''scale''" and pluginPathName="''/plugins''" and s=loaded_bridge
      and ?rt2.0="rt_returns PyNone" and c=config1 and oh=7 and out=8 and h="Some PyNone" and d=batch3]
  by (auto simp: env_with_root_def rt_raises_def rt_returns_def idle_bridge_def loaded_bridge_def
      split: sum.splits prod.splits)

text \<open>
  C9. With \<^verbatim>\<open>FOGLAMP_ROOT\<close> absent from the environment, \<^verbatim>\<open>PluginInterfaceInit\<close> passes
  the null result of \<^verbatim>\<open>getenv\<close> to the \<^verbatim>\<open>std::string\<close> constructor: the call has no
  defined outcome, and nothing is logged before it.
\<close>

theorem startup_without_root_is_undefined:
  "env_without_root ''FOGLAMP_ROOT'' = None \<and>
   PluginInterfaceInit env_without_root (rt_returns PyNone) ''scale'' ''/plugins'' idle_bridge =
     Inl Null_String_Construction"
  by (simp add: env_without_root_def PluginInterfaceInit_no_root)

end
